theory Spec2Isabelle
  imports Main "HOL-Library.AList"
begin

section \<open>Python strings as lists of code points\<close>

text \<open>
  The program is the query classifier of a college information bot
  (\<^verbatim>\<open>src/bot/nlp_processor.py\<close>, class \<^verbatim>\<open>NLPProcessor\<close>). Its texts are Russian, and
  Python's \<^verbatim>\<open>str\<close> is a sequence of Unicode code points: \<^verbatim>\<open>len\<close>, indexing and
  the \<^verbatim>\<open>in\<close> operator all count code points. A string is therefore modelled as a list
  of code points (integers); every Cyrillic literal of the source is written as
  its code points, with a Latin transliteration beside it.

  The character tables of Python (case mapping, \<^verbatim>\<open>\w\<close>, \<^verbatim>\<open>\d\<close>, \<^verbatim>\<open>isalpha\<close>) are
  modelled for Basic Latin (U+0000 to U+007F) and for the Cyrillic letters U+0400 to
  U+045F, which cover every literal of the program; other code points are treated as
  caseless symbols that are neither letters nor digits. White space is the full list of
  code points for which \<^verbatim>\<open>str.isspace\<close> holds.
\<close>

type_synonym ustr = "int list"

definition is_space :: "int \<Rightarrow> bool" where
  "is_space c \<longleftrightarrow>
     (9 \<le> c \<and> c \<le> 13) \<or> (28 \<le> c \<and> c \<le> 32) \<or> c = 133 \<or> c = 160 \<or> c = 5760 \<or>
     (8192 \<le> c \<and> c \<le> 8202) \<or> c = 8232 \<or> c = 8233 \<or> c = 8239 \<or> c = 8287 \<or> c = 12288"

definition is_digit :: "int \<Rightarrow> bool" where
  "is_digit c \<longleftrightarrow> 48 \<le> c \<and> c \<le> 57"

definition is_upper :: "int \<Rightarrow> bool" where
  "is_upper c \<longleftrightarrow> (65 \<le> c \<and> c \<le> 90) \<or> (1024 \<le> c \<and> c \<le> 1071)"

definition is_lower :: "int \<Rightarrow> bool" where
  "is_lower c \<longleftrightarrow> (97 \<le> c \<and> c \<le> 122) \<or> (1072 \<le> c \<and> c \<le> 1119)"

definition is_alpha :: "int \<Rightarrow> bool" where
  "is_alpha c \<longleftrightarrow> is_upper c \<or> is_lower c"

definition is_word :: "int \<Rightarrow> bool" where
  \<comment> \<open>the class \<^verbatim>\<open>\w\<close> of the \<^verbatim>\<open>re\<close> module: letters, digits and the underscore\<close>
  "is_word c \<longleftrightarrow> is_alpha c \<or> is_digit c \<or> c = 95"

definition lower_cp :: "int \<Rightarrow> int" where
  "lower_cp c =
     (if 65 \<le> c \<and> c \<le> 90 then c + 32
      else if 1040 \<le> c \<and> c \<le> 1071 then c + 32
      else if 1024 \<le> c \<and> c \<le> 1039 then c + 80
      else c)"

definition upper_cp :: "int \<Rightarrow> int" where
  "upper_cp c =
     (if 97 \<le> c \<and> c \<le> 122 then c - 32
      else if 1072 \<le> c \<and> c \<le> 1103 then c - 32
      else if 1104 \<le> c \<and> c \<le> 1119 then c - 80
      else c)"

definition lower :: "ustr \<Rightarrow> ustr" where
  "lower s = map lower_cp s"

definition upper :: "ustr \<Rightarrow> ustr" where
  "upper s = map upper_cp s"

fun capitalize :: "ustr \<Rightarrow> ustr" where
  "capitalize [] = []"
| "capitalize (c # cs) = upper_cp c # lower cs"

definition isalpha :: "ustr \<Rightarrow> bool" where
  \<comment> \<open>\<^verbatim>\<open>str.isalpha\<close>: not empty and letters only\<close>
  "isalpha s \<longleftrightarrow> s \<noteq> [] \<and> list_all is_alpha s"

fun starts_with :: "ustr \<Rightarrow> ustr \<Rightarrow> bool" where
  "starts_with [] s = True"
| "starts_with (p # ps) [] = False"
| "starts_with (p # ps) (c # cs) = (p = c \<and> starts_with ps cs)"

fun contains :: "ustr \<Rightarrow> ustr \<Rightarrow> bool" where
  \<comment> \<open>\<^verbatim>\<open>p in s\<close>\<close>
  "contains p [] = (p = [])"
| "contains p (c # cs) = (starts_with p (c # cs) \<or> contains p cs)"

fun join_sp :: "ustr list \<Rightarrow> ustr" where
  \<comment> \<open>\<^verbatim>\<open>" ".join(ws)\<close>\<close>
  "join_sp [] = []"
| "join_sp [w] = w"
| "join_sp (w # v # ws) = w @ [32] @ join_sp (v # ws)"

fun split_from :: "ustr \<Rightarrow> ustr \<Rightarrow> ustr list" where
  \<comment> \<open>the scan of \<^verbatim>\<open>str.split()\<close>; the first argument is the current word, reversed\<close>
  "split_from w [] = (if w = [] then [] else [rev w])"
| "split_from w (c # cs) =
     (if is_space c then (if w = [] then split_from [] cs else rev w # split_from [] cs)
      else split_from (c # w) cs)"

definition split_ws :: "ustr \<Rightarrow> ustr list" where
  \<comment> \<open>\<^verbatim>\<open>s.split()\<close>: the maximal runs of characters that are not white space\<close>
  "split_ws s = split_from [] s"

definition strip_punct :: "ustr \<Rightarrow> ustr" where
  \<comment> \<open>\<^verbatim>\<open>re.sub(r'[^\w\s]', ' ', s)\<close>\<close>
  "strip_punct s = map (\<lambda>c. if is_word c \<or> is_space c then c else 32) s"

section \<open>The roster index\<close>

text \<open>
  \<^verbatim>\<open>set_teacher_surnames\<close> receives the rows of the staff table as the database returns
  them: \<^verbatim>\<open>(id, surname, given name, patronymic, position, room, photo)\<close>. A field is a
  string, an integer or \<^verbatim>\<open>None\<close>; an element of the sequence that is no list or tuple is
  \<open>NotRow\<close>. The index \<^verbatim>\<open>self.teacher_surnames\<close> is a Python \<^verbatim>\<open>dict\<close>: it keeps
  insertion order, and storing under a key it already has replaces the value where the key
  stands. That is \<^const>\<open>AList.update\<close> on an association list. The calls of the logger are
  returned as a list beside the index.
\<close>

datatype field = FStr ustr | FInt int | FNone

datatype teacher_rec = Row "field list" | NotRow

datatype log_entry =
    Warning_empty_list
  | Warning_invalid_type
  | Warning_insufficient_fields teacher_rec
  | Debug_added ustr ustr
  | Info_initialized nat

fun digit_list :: "nat \<Rightarrow> int \<Rightarrow> ustr" where
  \<comment> \<open>decimal digits, most significant first; the first argument bounds the number of digits\<close>
  "digit_list 0 n = []"
| "digit_list (Suc k) n = (if n < 10 then [48 + n] else digit_list k (n div 10) @ [48 + n mod 10])"

definition str_of_int :: "int \<Rightarrow> ustr" where
  "str_of_int i = (if i < 0 then 45 # digit_list (Suc (nat (- i))) (- i)
                   else digit_list (Suc (nat i)) i)"

fun py_str :: "field \<Rightarrow> ustr" where
  \<comment> \<open>\<^verbatim>\<open>str(x)\<close>, which is also what an f-string inserts\<close>
  "py_str (FStr s) = s"
| "py_str (FInt i) = str_of_int i"
| "py_str FNone = [78, 111, 110, 101] \<comment> \<open>None\<close>"

definition surname_key :: "field list \<Rightarrow> ustr" where
  "surname_key fs = lower (py_str (fs ! 1))"

definition full_name :: "field list \<Rightarrow> ustr" where
  "full_name fs = py_str (fs ! 1) @ [32] @ py_str (fs ! 2) @ [32] @ py_str (fs ! 3)"

fun index_records :: "(ustr \<times> ustr) list \<Rightarrow> teacher_rec list \<Rightarrow> (ustr \<times> ustr) list \<times> log_entry list" where
  "index_records idx [] = (idx, [])"
| "index_records idx (NotRow # ts) =
     (case index_records idx ts of (idx', lg) \<Rightarrow> (idx', Warning_invalid_type # lg))"
| "index_records idx (Row fs # ts) =
     (if length fs < 4 then
        (case index_records idx ts of
           (idx', lg) \<Rightarrow> (idx', Warning_insufficient_fields (Row fs) # lg))
      else
        (case index_records (AList.update (surname_key fs) (full_name fs) idx) ts of
           (idx', lg) \<Rightarrow> (idx', Debug_added (surname_key fs) (full_name fs) # lg)))"

record nlp =
  morph :: "ustr \<Rightarrow> ustr option"
  teacher_surnames :: "(ustr \<times> ustr) list"
  discipline_order :: "ustr list"

definition set_teacher_surnames :: "nlp \<Rightarrow> teacher_rec list \<Rightarrow> nlp \<times> log_entry list" where
  "set_teacher_surnames p ts =
     (if ts = [] then (p\<lparr>teacher_surnames := []\<rparr>, [Warning_empty_list])
      else (case index_records [] ts of
              (idx, lg) \<Rightarrow> (p\<lparr>teacher_surnames := idx\<rparr>, lg @ [Info_initialized (length idx)])))"

definition valid_row :: "teacher_rec \<Rightarrow> bool" where
  "valid_row r = (case r of Row fs \<Rightarrow> 4 \<le> length fs | NotRow \<Rightarrow> False)"

definition row_key :: "teacher_rec \<Rightarrow> ustr" where
  "row_key r = (case r of Row fs \<Rightarrow> surname_key fs | NotRow \<Rightarrow> [])"

definition row_name :: "teacher_rec \<Rightarrow> ustr" where
  "row_name r = (case r of Row fs \<Rightarrow> full_name fs | NotRow \<Rightarrow> [])"

section \<open>Keyword tables\<close>

text \<open>
  \<^verbatim>\<open>self.categories\<close> is a \<^verbatim>\<open>dict\<close> from category name to a \<^verbatim>\<open>set\<close> of keywords, and
  \<^verbatim>\<open>self.stop_words\<close> is a \<^verbatim>\<open>set\<close>. The dict is iterated in the order it is written in.
  The classifier asks the keyword sets for membership only, except for one loop over the
  discipline set in \<^verbatim>\<open>find_discipline_in_text\<close>: Python fixes no iteration order for a
  set of strings, so that loop follows the field \<open>discipline_order\<close> of the processor,
  some enumeration of the discipline keywords. The tables below list each set in the order
  of its literal.
\<close>

definition teacher_keywords :: "ustr list" where
  "teacher_keywords =
     [[1087, 1088, 1077, 1087, 1086, 1076, 1072, 1074, 1072, 1090, 1077, 1083, 1100] \<comment> \<open>prepodavatel'\<close>,
      [1091, 1095, 1080, 1090, 1077, 1083, 1100] \<comment> \<open>uchitel'\<close>,
      [1087, 1077, 1076, 1072, 1075, 1086, 1075] \<comment> \<open>pedagog\<close>,
      [1087, 1088, 1077, 1087, 1086, 1076, 1072, 1077, 1090] \<comment> \<open>prepodaet\<close>,
      [1074, 1077, 1076, 1077, 1090] \<comment> \<open>vedet\<close>,
      [1087, 1072, 1088, 1072] \<comment> \<open>para\<close>,
      [1087, 1072, 1088, 1099] \<comment> \<open>pary\<close>,
      [1091, 1088, 1086, 1082] \<comment> \<open>urok\<close>,
      [1091, 1088, 1086, 1082, 1080] \<comment> \<open>uroki\<close>,
      [1082, 1090, 1086] \<comment> \<open>kto\<close>,
      [1090, 1072, 1082, 1072, 1103] \<comment> \<open>takaya\<close>,
      [1090, 1072, 1082, 1086, 1081] \<comment> \<open>takoj\<close>,
      [1082, 1072, 1082, 1080, 1077] \<comment> \<open>kakie\<close>,
      [1087, 1088, 1077, 1076, 1084, 1077, 1090, 1099] \<comment> \<open>predmety\<close>,
      [1087, 1086, 1082, 1072, 1078, 1080] \<comment> \<open>pokazhi\<close>,
      [1088, 1072, 1089, 1089, 1082, 1072, 1078, 1080] \<comment> \<open>rasskazhi\<close>,
      [1080, 1085, 1092, 1086, 1088, 1084, 1072, 1094, 1080, 1103] \<comment> \<open>informaciya\<close>,
      [1089, 1087, 1080, 1089, 1086, 1082] \<comment> \<open>spisok\<close>,
      [1086, 32, 1087, 1088, 1077, 1087, 1086, 1076, 1072, 1074, 1072, 1090, 1077, 1083, 1103, 1093] \<comment> \<open>o prepodavatelyah\<close>,
      [1086, 32, 1091, 1095, 1080, 1090, 1077, 1083, 1103, 1093] \<comment> \<open>o uchitelyah\<close>,
      [1087, 1086, 1082, 1072, 1078, 1080] \<comment> \<open>pokazhi\<close>,
      [1091, 1095, 1072, 1090] \<comment> \<open>uchat\<close>,
      [1087, 1088, 1077, 1087, 1086, 1076, 1072, 1074, 1072, 1090, 1077, 1083, 1080] \<comment> \<open>prepodavateli\<close>,
      [1085, 1072, 1081, 1090, 1080] \<comment> \<open>najti\<close>,
      [1082, 1086, 1085, 1090, 1072, 1082, 1090, 1099] \<comment> \<open>kontakty\<close>,
      [1087, 1088, 1077, 1087, 1086, 1076] \<comment> \<open>prepod\<close>,
      [1074, 1077, 1076, 1105, 1090] \<comment> \<open>vedyot\<close>,
      [1091, 1095, 1080, 1090] \<comment> \<open>uchit\<close>,
      [1092, 1072, 1084, 1080, 1083, 1080, 1103] \<comment> \<open>familiya\<close>,
      [1087, 1088, 1077, 1087, 1086, 1076, 1072] \<comment> \<open>prepoda\<close>]"

definition discipline_keywords :: "ustr list" where
  "discipline_keywords =
     [[1087, 1088, 1077, 1076, 1084, 1077, 1090] \<comment> \<open>predmet\<close>,
      [1076, 1080, 1089, 1094, 1080, 1087, 1083, 1080, 1085, 1072] \<comment> \<open>disciplina\<close>,
      [1084, 1072, 1090, 1077, 1084, 1072, 1090, 1080, 1082, 1072] \<comment> \<open>matematika\<close>,
      [1080, 1085, 1092, 1086, 1088, 1084, 1072, 1090, 1080, 1082, 1072] \<comment> \<open>informatika\<close>,
      [1087, 1088, 1086, 1075, 1088, 1072, 1084, 1084, 1080, 1088, 1086, 1074, 1072, 1085, 1080, 1077] \<comment> \<open>programmirovanie\<close>,
      [1101, 1082, 1086, 1085, 1086, 1084, 1080, 1082, 1072] \<comment> \<open>ekonomika\<close>,
      [1073, 1091, 1093, 1091, 1095, 1077, 1090] \<comment> \<open>buhuchet\<close>,
      [1073, 1091, 1093, 1075, 1072, 1083, 1090, 1077, 1088, 1080, 1103] \<comment> \<open>buhgalteriya\<close>,
      [1092, 1080, 1079, 1082, 1091, 1083, 1100, 1090, 1091, 1088, 1072] \<comment> \<open>fizkul'tura\<close>,
      [1072, 1085, 1075, 1083, 1080, 1081, 1089, 1082, 1080, 1081] \<comment> \<open>anglijskij\<close>,
      [1080, 1089, 1090, 1086, 1088, 1080, 1103] \<comment> \<open>istoriya\<close>,
      [1092, 1080, 1079, 1080, 1082, 1072] \<comment> \<open>fizika\<close>,
      [1087, 1088, 1072, 1074, 1086] \<comment> \<open>pravo\<close>,
      [1083, 1080, 1090, 1077, 1088, 1072, 1090, 1091, 1088, 1072] \<comment> \<open>literatura\<close>,
      [1088, 1091, 1089, 1089, 1082, 1080, 1081] \<comment> \<open>russkij\<close>,
      [1072, 1083, 1075, 1077, 1073, 1088, 1072] \<comment> \<open>algebra\<close>,
      [1075, 1077, 1086, 1084, 1077, 1090, 1088, 1080, 1103] \<comment> \<open>geometriya\<close>,
      [1093, 1080, 1084, 1080, 1103] \<comment> \<open>himiya\<close>,
      [1073, 1080, 1086, 1083, 1086, 1075, 1080, 1103] \<comment> \<open>biologiya\<close>,
      [1082, 1091, 1088, 1089] \<comment> \<open>kurs\<close>,
      [1083, 1077, 1082, 1094, 1080, 1103] \<comment> \<open>lekciya\<close>,
      [1089, 1077, 1084, 1080, 1085, 1072, 1088] \<comment> \<open>seminar\<close>,
      [1087, 1088, 1072, 1082, 1090, 1080, 1082, 1072] \<comment> \<open>praktika\<close>,
      [1083, 1072, 1073, 1072] \<comment> \<open>laba\<close>,
      [1087, 1088, 1077, 1087, 1086, 1076, 1072, 1077, 1090] \<comment> \<open>prepodaet\<close>,
      [1074, 1077, 1076, 1077, 1090] \<comment> \<open>vedet\<close>,
      [1080, 1079, 1091, 1095, 1072, 1077, 1090] \<comment> \<open>izuchaet\<close>,
      [1080, 1079, 1091, 1095, 1072, 1077, 1084] \<comment> \<open>izuchaem\<close>]"

definition document_keywords :: "ustr list" where
  "document_keywords =
     [[1089, 1087, 1088, 1072, 1074, 1082, 1072] \<comment> \<open>spravka\<close>,
      [1076, 1086, 1082, 1091, 1084, 1077, 1085, 1090] \<comment> \<open>dokument\<close>,
      [1079, 1072, 1103, 1074, 1083, 1077, 1085, 1080, 1077] \<comment> \<open>zayavlenie\<close>,
      [1087, 1086, 1083, 1091, 1095, 1080, 1090, 1100] \<comment> \<open>poluchit'\<close>,
      [1086, 1092, 1086, 1088, 1084, 1080, 1090, 1100] \<comment> \<open>oformit'\<close>,
      [1073, 1091, 1084, 1072, 1075, 1072] \<comment> \<open>bumaga\<close>,
      [1089, 1087, 1088, 1072, 1074, 1082, 1080] \<comment> \<open>spravki\<close>,
      [1076, 1086, 1082, 1091, 1084, 1077, 1085, 1090, 1099] \<comment> \<open>dokumenty\<close>,
      [1073, 1091, 1084, 1072, 1075, 1080] \<comment> \<open>bumagi\<close>,
      [1079, 1072, 1087, 1086, 1083, 1085, 1080, 1090, 1100] \<comment> \<open>zapolnit'\<close>,
      [1087, 1086, 1076, 1072, 1090, 1100] \<comment> \<open>podat'\<close>,
      [1089, 1087, 1088, 1072, 1074, 1082, 1091] \<comment> \<open>spravku\<close>]"

definition navigation_keywords :: "ustr list" where
  "navigation_keywords =
     [[1075, 1076, 1077] \<comment> \<open>gde\<close>,
      [1085, 1072, 1081, 1090, 1080] \<comment> \<open>najti\<close>,
      [1085, 1072, 1093, 1086, 1076, 1080, 1090, 1089, 1103] \<comment> \<open>nahoditsya\<close>,
      [1088, 1072, 1089, 1087, 1086, 1083, 1086, 1078, 1077, 1085, 1080, 1077] \<comment> \<open>raspolozhenie\<close>,
      [1072, 1091, 1076, 1080, 1090, 1086, 1088, 1080, 1103] \<comment> \<open>auditoriya\<close>,
      [1082, 1072, 1073, 1080, 1085, 1077, 1090] \<comment> \<open>kabinet\<close>,
      [1101, 1090, 1072, 1078] \<comment> \<open>etazh\<close>,
      [1082, 1086, 1088, 1087, 1091, 1089] \<comment> \<open>korpus\<close>,
      [1089, 1090, 1086, 1083, 1086, 1074, 1072, 1103] \<comment> \<open>stolovaya\<close>,
      [1073, 1080, 1073, 1083, 1080, 1086, 1090, 1077, 1082, 1072] \<comment> \<open>biblioteka\<close>,
      [1073, 1091, 1092, 1077, 1090] \<comment> \<open>bufet\<close>,
      [1088, 1072, 1089, 1087, 1086, 1083, 1086, 1078, 1077, 1085, 1072] \<comment> \<open>raspolozhena\<close>,
      [1072, 1091, 1076, 1080, 1090, 1086, 1088, 1080, 1080] \<comment> \<open>auditorii\<close>,
      [1085, 1072, 1093, 1086, 1076, 1103, 1090, 1089, 1103] \<comment> \<open>nahodyatsya\<close>,
      [1087, 1086, 1080, 1089, 1082] \<comment> \<open>poisk\<close>,
      [1082, 1072, 1082, 32, 1087, 1088, 1086, 1081, 1090, 1080] \<comment> \<open>kak projti\<close>,
      [1076, 1086, 1088, 1086, 1075, 1072] \<comment> \<open>doroga\<close>,
      [1087, 1091, 1090, 1100] \<comment> \<open>put'\<close>,
      [1072, 1082, 1090, 1086, 1074, 1099, 1081] \<comment> \<open>aktovyj\<close>,
      [1079, 1072, 1083] \<comment> \<open>zal\<close>,
      [1083, 1072, 1073, 1086, 1088, 1072, 1090, 1086, 1088, 1080, 1103] \<comment> \<open>laboratoriya\<close>,
      [1084, 1077, 1076, 1087, 1091, 1085, 1082, 1090] \<comment> \<open>medpunkt\<close>,
      [1076, 1077, 1082, 1072, 1085, 1072, 1090] \<comment> \<open>dekanat\<close>]"

definition event_keywords :: "ustr list" where
  "event_keywords =
     [[1084, 1077, 1088, 1086, 1087, 1088, 1080, 1103, 1090, 1080, 1077] \<comment> \<open>meropriyatie\<close>,
      [1089, 1086, 1073, 1099, 1090, 1080, 1077] \<comment> \<open>sobytie\<close>,
      [1087, 1088, 1072, 1079, 1076, 1085, 1080, 1082] \<comment> \<open>prazdnik\<close>,
      [1082, 1086, 1085, 1094, 1077, 1088, 1090] \<comment> \<open>koncert\<close>,
      [1074, 1099, 1089, 1090, 1091, 1087, 1083, 1077, 1085, 1080, 1077] \<comment> \<open>vystuplenie\<close>,
      [1082, 1086, 1075, 1076, 1072] \<comment> \<open>kogda\<close>,
      [1082, 1072, 1082, 1080, 1077] \<comment> \<open>kakie\<close>,
      [1092, 1077, 1089, 1090, 1080, 1074, 1072, 1083, 1100] \<comment> \<open>festival'\<close>,
      [1074, 1089, 1090, 1088, 1077, 1095, 1072] \<comment> \<open>vstrecha\<close>,
      [1089, 1077, 1084, 1080, 1085, 1072, 1088] \<comment> \<open>seminar\<close>,
      [1082, 1086, 1085, 1092, 1077, 1088, 1077, 1085, 1094, 1080, 1103] \<comment> \<open>konferenciya\<close>,
      [1072, 1085, 1086, 1085, 1089] \<comment> \<open>anons\<close>,
      [1089, 1082, 1086, 1088, 1086] \<comment> \<open>skoro\<close>,
      [1084, 1077, 1088, 1086, 1087, 1088, 1080, 1103, 1090, 1080, 1103] \<comment> \<open>meropriyatiya\<close>,
      [1072, 1092, 1080, 1096, 1072] \<comment> \<open>afisha\<close>]"

definition sport_keywords :: "ustr list" where
  "sport_keywords =
     [[1089, 1077, 1082, 1094, 1080, 1103] \<comment> \<open>sekciya\<close>,
      [1089, 1087, 1086, 1088, 1090] \<comment> \<open>sport\<close>,
      [1090, 1088, 1077, 1085, 1080, 1088, 1086, 1074, 1082, 1072] \<comment> \<open>trenirovka\<close>,
      [1079, 1072, 1085, 1103, 1090, 1080, 1077] \<comment> \<open>zanyatie\<close>,
      [1090, 1088, 1077, 1085, 1077, 1088] \<comment> \<open>trener\<close>,
      [1080, 1075, 1088, 1072] \<comment> \<open>igra\<close>,
      [1082, 1072, 1082, 1080, 1077] \<comment> \<open>kakie\<close>,
      [1077, 1089, 1090, 1100] \<comment> \<open>est'\<close>,
      [1089, 1077, 1082, 1094, 1080, 1080] \<comment> \<open>sekcii\<close>,
      [1079, 1072, 1085, 1103, 1090, 1080, 1103] \<comment> \<open>zanyatiya\<close>,
      [1089, 1087, 1086, 1088, 1090, 1080, 1074, 1085, 1099, 1077] \<comment> \<open>sportivnye\<close>,
      [1089, 1087, 1086, 1088, 1090, 1079, 1072, 1083] \<comment> \<open>sportzal\<close>,
      [1092, 1080, 1079, 1082, 1091, 1083, 1100, 1090, 1091, 1088, 1072] \<comment> \<open>fizkul'tura\<close>,
      [1092, 1091, 1090, 1073, 1086, 1083] \<comment> \<open>futbol\<close>,
      [1074, 1086, 1083, 1077, 1081, 1073, 1086, 1083] \<comment> \<open>volejbol\<close>,
      [1073, 1072, 1089, 1082, 1077, 1090, 1073, 1086, 1083] \<comment> \<open>basketbol\<close>,
      [1090, 1077, 1085, 1085, 1080, 1089] \<comment> \<open>tennis\<close>,
      [1090, 1088, 1077, 1085, 1077, 1088] \<comment> \<open>trener\<close>,
      [1092, 1080, 1079, 1088, 1091, 1082] \<comment> \<open>fizruk\<close>,
      [1089, 1087, 1086, 1088, 1090, 1080, 1074, 1085, 1099, 1081] \<comment> \<open>sportivnyj\<close>,
      [1079, 1072, 1085, 1080, 1084, 1072, 1090, 1100, 1089, 1103] \<comment> \<open>zanimat'sya\<close>]"

definition dormitory_keywords :: "ustr list" where
  "dormitory_keywords =
     [[1086, 1073, 1097, 1077, 1078, 1080, 1090, 1080, 1077] \<comment> \<open>obshchezhitie\<close>,
      [1086, 1073, 1097, 1072, 1075, 1072] \<comment> \<open>obshchaga\<close>,
      [1082, 1086, 1084, 1085, 1072, 1090, 1072] \<comment> \<open>komnata\<close>,
      [1087, 1088, 1086, 1078, 1080, 1074, 1072, 1085, 1080, 1077] \<comment> \<open>prozhivanie\<close>,
      [1079, 1072, 1089, 1077, 1083, 1077, 1085, 1080, 1077] \<comment> \<open>zaselenie\<close>,
      [1082, 1086, 1084, 1077, 1085, 1076, 1072, 1085, 1090] \<comment> \<open>komendant\<close>,
      [1078, 1080, 1090, 1100] \<comment> \<open>zhit'\<close>,
      [1087, 1086, 1089, 1077, 1083, 1080, 1090, 1100, 1089, 1103] \<comment> \<open>poselit'sya\<close>,
      [1082, 1074, 1072, 1088, 1090, 1080, 1088, 1072] \<comment> \<open>kvartira\<close>,
      [1086, 1073, 1097, 1077, 1078, 1080, 1090, 1080, 1103] \<comment> \<open>obshchezhitiya\<close>,
      [1079, 1072, 1089, 1077, 1083, 1080, 1090, 1100, 1089, 1103] \<comment> \<open>zaselit'sya\<close>,
      [1091, 1089, 1083, 1086, 1074, 1080, 1103] \<comment> \<open>usloviya\<close>,
      [1087, 1083, 1072, 1090, 1072] \<comment> \<open>plata\<close>,
      [1089, 1085, 1103, 1090, 1100] \<comment> \<open>snyat'\<close>]"

definition stop_words :: "ustr list" where
  "stop_words =
     [[1080] \<comment> \<open>i\<close>,
      [1074] \<comment> \<open>v\<close>,
      [1074, 1086] \<comment> \<open>vo\<close>,
      [1085, 1077] \<comment> \<open>ne\<close>,
      [1095, 1090, 1086] \<comment> \<open>chto\<close>,
      [1086, 1085] \<comment> \<open>on\<close>,
      [1085, 1072] \<comment> \<open>na\<close>,
      [1103] \<comment> \<open>ya\<close>,
      [1089] \<comment> \<open>s\<close>,
      [1089, 1086] \<comment> \<open>so\<close>,
      [1082, 1072, 1082] \<comment> \<open>kak\<close>,
      [1072] \<comment> \<open>a\<close>,
      [1090, 1086] \<comment> \<open>to\<close>,
      [1074, 1089, 1077] \<comment> \<open>vse\<close>,
      [1086, 1085, 1072] \<comment> \<open>ona\<close>,
      [1090, 1072, 1082] \<comment> \<open>tak\<close>,
      [1077, 1075, 1086] \<comment> \<open>ego\<close>,
      [1085, 1086] \<comment> \<open>no\<close>,
      [1076, 1072] \<comment> \<open>da\<close>,
      [1090, 1099] \<comment> \<open>ty\<close>,
      [1082] \<comment> \<open>k\<close>,
      [1091] \<comment> \<open>u\<close>,
      [1078, 1077] \<comment> \<open>zhe\<close>,
      [1074, 1099] \<comment> \<open>vy\<close>,
      [1079, 1072] \<comment> \<open>za\<close>,
      [1073, 1099] \<comment> \<open>by\<close>,
      [1087, 1086] \<comment> \<open>po\<close>,
      [1090, 1086, 1083, 1100, 1082, 1086] \<comment> \<open>tol'ko\<close>,
      [1077, 1077] \<comment> \<open>ee\<close>,
      [1084, 1085, 1077] \<comment> \<open>mne\<close>,
      [1073, 1099, 1083, 1086] \<comment> \<open>bylo\<close>,
      [1074, 1086, 1090] \<comment> \<open>vot\<close>,
      [1086, 1090] \<comment> \<open>ot\<close>,
      [1084, 1077, 1085, 1103] \<comment> \<open>menya\<close>,
      [1077, 1097, 1077] \<comment> \<open>eshche\<close>,
      [1085, 1077, 1090] \<comment> \<open>net\<close>,
      [1086] \<comment> \<open>o\<close>,
      [1080, 1079] \<comment> \<open>iz\<close>,
      [1077, 1084, 1091] \<comment> \<open>emu\<close>,
      [1090, 1072, 1082, 1072, 1103] \<comment> \<open>takaya\<close>,
      [1101, 1090, 1086] \<comment> \<open>eto\<close>,
      [1101, 1090, 1072] \<comment> \<open>eta\<close>,
      [1075, 1076, 1077] \<comment> \<open>gde\<close>,
      [1082, 1072, 1082, 1072, 1103] \<comment> \<open>kakaya\<close>]"

definition common_disciplines :: "ustr list" where
  "common_disciplines =
     [[1084, 1072, 1090, 1077, 1084, 1072, 1090, 1080, 1082, 1072] \<comment> \<open>matematika\<close>,
      [1080, 1085, 1092, 1086, 1088, 1084, 1072, 1090, 1080, 1082, 1072] \<comment> \<open>informatika\<close>,
      [1088, 1091, 1089, 1089, 1082, 1080, 1081, 32, 1103, 1079, 1099, 1082] \<comment> \<open>russkij yazyk\<close>,
      [1083, 1080, 1090, 1077, 1088, 1072, 1090, 1091, 1088, 1072] \<comment> \<open>literatura\<close>,
      [1080, 1089, 1090, 1086, 1088, 1080, 1103] \<comment> \<open>istoriya\<close>,
      [1092, 1080, 1079, 1080, 1082, 1072] \<comment> \<open>fizika\<close>,
      [1093, 1080, 1084, 1080, 1103] \<comment> \<open>himiya\<close>,
      [1073, 1080, 1086, 1083, 1086, 1075, 1080, 1103] \<comment> \<open>biologiya\<close>,
      [1101, 1082, 1086, 1085, 1086, 1084, 1080, 1082, 1072] \<comment> \<open>ekonomika\<close>,
      [1087, 1088, 1072, 1074, 1086] \<comment> \<open>pravo\<close>,
      [1073, 1091, 1093, 1075, 1072, 1083, 1090, 1077, 1088, 1080, 1103] \<comment> \<open>buhgalteriya\<close>,
      [1087, 1088, 1086, 1075, 1088, 1072, 1084, 1084, 1080, 1088, 1086, 1074, 1072, 1085, 1080, 1077] \<comment> \<open>programmirovanie\<close>,
      [1072, 1085, 1075, 1083, 1080, 1081, 1089, 1082, 1080, 1081, 32, 1103, 1079, 1099, 1082] \<comment> \<open>anglijskij yazyk\<close>,
      [1092, 1080, 1083, 1086, 1089, 1086, 1092, 1080, 1103] \<comment> \<open>filosofiya\<close>,
      [1087, 1089, 1080, 1093, 1086, 1083, 1086, 1075, 1080, 1103] \<comment> \<open>psihologiya\<close>,
      [1089, 1090, 1072, 1090, 1080, 1089, 1090, 1080, 1082, 1072] \<comment> \<open>statistika\<close>,
      [1082, 1091, 1083, 1100, 1090, 1091, 1088, 1072] \<comment> \<open>kul'tura\<close>,
      [1084, 1077, 1085, 1077, 1076, 1078, 1084, 1077, 1085, 1090] \<comment> \<open>menedzhment\<close>,
      [1084, 1072, 1088, 1082, 1077, 1090, 1080, 1085, 1075] \<comment> \<open>marketing\<close>,
      [1089, 1086, 1094, 1080, 1086, 1083, 1086, 1075, 1080, 1103] \<comment> \<open>sociologiya\<close>,
      [1087, 1086, 1083, 1080, 1090, 1086, 1083, 1086, 1075, 1080, 1103] \<comment> \<open>politologiya\<close>,
      [1101, 1082, 1086, 1083, 1086, 1075, 1080, 1103] \<comment> \<open>ekologiya\<close>]"

definition categories :: "(string \<times> ustr list) list" where
  "categories =
     [(''teacher'', teacher_keywords), (''discipline'', discipline_keywords),
      (''document'', document_keywords), (''navigation'', navigation_keywords),
      (''event'', event_keywords), (''sport'', sport_keywords),
      (''dormitory'', dormitory_keywords)]"

definition category_names :: "string list" where
  "category_names =
     [''teacher'', ''discipline'', ''document'', ''navigation'', ''event'', ''sport'',
      ''dormitory'', ''unknown'']"

definition wf_nlp :: "nlp \<Rightarrow> bool" where
  \<comment> \<open>the iteration order of the discipline set enumerates that set\<close>
  "wf_nlp p \<longleftrightarrow> set (discipline_order p) = set discipline_keywords"

section \<open>Normalizer\<close>

text \<open>
  The morphological analyser is the external library pymorphy3; it is the field
  \<open>morph\<close> of the processor, giving \<^verbatim>\<open>self.morph.parse(word)[0].normal_form\<close>, or
  \<open>None\<close> where that expression raises.
\<close>

definition normalize_word :: "nlp \<Rightarrow> ustr \<Rightarrow> ustr" where
  "normalize_word p word = (case morph p word of Some nf \<Rightarrow> nf | None \<Rightarrow> word)"

definition extract_keywords :: "nlp \<Rightarrow> ustr \<Rightarrow> ustr list" where
  "extract_keywords p text =
     (let text' = strip_punct (lower text);
          words = split_ws text';
          normalized_words = map (normalize_word p) words
      in filter (\<lambda>word. word \<notin> set stop_words) normalized_words)"

section \<open>Entity extractors\<close>

fun context_hit :: "ustr list \<Rightarrow> ustr list \<Rightarrow> ustr option" where
  \<comment> \<open>the nested loop of the teaching context: words outside, discipline keywords inside\<close>
  "context_hit ds [] = None"
| "context_hit ds (word # ws) =
     (case find (\<lambda>discipline. contains discipline word) ds of
        Some discipline \<Rightarrow> Some discipline
      | None \<Rightarrow> context_hit ds ws)"

definition teaching_marker :: "ustr \<Rightarrow> bool" where
  "teaching_marker text \<longleftrightarrow>
     contains [1074, 1077, 1076, 1077, 1090] \<comment> \<open>vedet\<close> (lower text) \<or>
     contains [1087, 1088, 1077, 1087, 1086, 1076, 1072, 1077, 1090] \<comment> \<open>prepodaet\<close> (lower text) \<or>
     contains [1074, 1077, 1076, 1105, 1090] \<comment> \<open>vedyot\<close> (lower text)"

definition teaching_context :: "nlp \<Rightarrow> ustr \<Rightarrow> ustr option" where
  "teaching_context p text =
     (if teaching_marker text
      then context_hit (discipline_order p) (extract_keywords p (lower text))
      else None)"

definition mdk_match_at :: "ustr \<Rightarrow> ustr option" where
  \<comment> \<open>the pattern \<^verbatim>\<open>mdk\s*\d{2}\.\d{2}\<close> (the letters Cyrillic), ignoring case, matched at
      the start of the string; the result is the matched text\<close>
  "mdk_match_at s =
     (case s of
        a # b # c # rest \<Rightarrow>
          if lower_cp a = 1084 \<and> lower_cp b = 1076 \<and> lower_cp c = 1082 then
            (case dropWhile is_space rest of
               d1 # d2 # dot # d3 # d4 # _ \<Rightarrow>
                 if is_digit d1 \<and> is_digit d2 \<and> dot = 46 \<and> is_digit d3 \<and> is_digit d4
                 then Some ([a, b, c] @ takeWhile is_space rest @ [d1, d2, dot, d3, d4])
                 else None
             | _ \<Rightarrow> None)
          else None
      | _ \<Rightarrow> None)"

fun mdk_search :: "ustr \<Rightarrow> ustr option" where
  \<comment> \<open>\<^verbatim>\<open>mdk_pattern.search(text)\<close>: the leftmost match\<close>
  "mdk_search [] = None"
| "mdk_search (c # cs) =
     (case mdk_match_at (c # cs) of Some m \<Rightarrow> Some m | None \<Rightarrow> mdk_search cs)"

definition format_mdk :: "ustr \<Rightarrow> ustr" where
  \<comment> \<open>\<^verbatim>\<open>match.group().upper().replace(' ', '')\<close>\<close>
  "format_mdk m = filter (\<lambda>c. c \<noteq> 32) (upper m)"

definition partial_discipline :: "ustr list \<Rightarrow> ustr \<Rightarrow> bool" where
  "partial_discipline ws discipline \<longleftrightarrow>
     5 < length discipline \<and>
     list_ex (\<lambda>word. 5 < length word \<and> (contains discipline word \<or> contains word discipline)) ws"

definition find_discipline_in_text :: "nlp \<Rightarrow> ustr \<Rightarrow> ustr option" where
  "find_discipline_in_text p text =
     (case teaching_context p text of
        Some discipline \<Rightarrow> Some (capitalize discipline)
      | None \<Rightarrow>
     (case mdk_search text of
        Some m \<Rightarrow> Some (format_mdk m)
      | None \<Rightarrow>
     (case find (\<lambda>discipline. contains discipline (lower text)) common_disciplines of
        Some discipline \<Rightarrow> Some (capitalize discipline)
      | None \<Rightarrow>
     (case find (partial_discipline (extract_keywords p (lower text))) common_disciplines of
        Some discipline \<Rightarrow> Some (capitalize discipline)
      | None \<Rightarrow> None))))"

fun search_capture :: "ustr \<Rightarrow> ustr \<Rightarrow> ustr option" where
  \<comment> \<open>\<^verbatim>\<open>re.search(lit + r"([\w]+)", s)\<close> and its group 1: the leftmost place where the
      literal is followed by a word character, and the run of word characters there\<close>
  "search_capture lit [] = None"
| "search_capture lit (c # cs) =
     (if starts_with lit (c # cs) \<and> takeWhile is_word (drop (length lit) (c # cs)) \<noteq> []
      then Some (takeWhile is_word (drop (length lit) (c # cs)))
      else search_capture lit cs)"

definition teacher_patterns :: "ustr list" where
  \<comment> \<open>the literal part of each template, up to its group \<^verbatim>\<open>([\w]+)\<close>\<close>
  "teacher_patterns =
     [[1082, 1090, 1086, 32, 1090, 1072, 1082, 1072, 1103, 32] \<comment> \<open>kto takaya \<close>,
      [1082, 1090, 1086, 32, 1090, 1072, 1082, 1086, 1081, 32] \<comment> \<open>kto takoj \<close>,
      [1087, 1088, 1077, 1087, 1086, 1076, 1072, 1074, 1072, 1090, 1077, 1083, 1100, 32] \<comment> \<open>prepodavatel' \<close>,
      [1086, 32, 1087, 1088, 1077, 1087, 1086, 1076, 1072, 1074, 1072, 1090, 1077, 1083, 1077, 32] \<comment> \<open>o prepodavatele \<close>,
      [1075, 1076, 1077, 32, 1085, 1072, 1081, 1090, 1080, 32] \<comment> \<open>gde najti \<close>,
      [1082, 1086, 1085, 1090, 1072, 1082, 1090, 1099, 32] \<comment> \<open>kontakty \<close>]"

definition query_keywords :: "nlp \<Rightarrow> ustr \<Rightarrow> ustr list" where
  \<comment> \<open>\<^verbatim>\<open>keywords\<close> after the loop over the teacher patterns, which appends each capture\<close>
  "query_keywords p text_lower =
     extract_keywords p text_lower @
     List.map_filter (\<lambda>pattern. search_capture pattern text_lower) teacher_patterns"

section \<open>Classifier\<close>

type_synonym result = "string \<times> ustr list"

definition roster_entry :: "(ustr \<times> ustr) list \<Rightarrow> ustr \<Rightarrow> (ustr \<times> ustr) option" where
  \<comment> \<open>the first entry, in insertion order, whose surname occurs in the word\<close>
  "roster_entry idx word = find (\<lambda>(name_base, full). contains name_base (lower word)) idx"

fun roster_match :: "(ustr \<times> ustr) list \<Rightarrow> ustr list \<Rightarrow> ustr option" where
  "roster_match idx [] = None"
| "roster_match idx (word # ws) =
     (case roster_entry idx word of
        Some (name_base, full) \<Rightarrow> Some full
      | None \<Rightarrow> roster_match idx ws)"

definition step_roster :: "nlp \<Rightarrow> ustr list \<Rightarrow> result option" where
  "step_roster p keywords =
     (case roster_match (teacher_surnames p) keywords of
        Some full \<Rightarrow> Some (''teacher'', [full])
      | None \<Rightarrow> None)"

definition locative_marker :: "ustr \<Rightarrow> bool" where
  "locative_marker t \<longleftrightarrow>
     contains [1075, 1076, 1077] \<comment> \<open>gde\<close> t \<or>
     contains [1082, 1072, 1082, 32, 1085, 1072, 1081, 1090, 1080] \<comment> \<open>kak najti\<close> t \<or>
     contains [1082, 1072, 1082, 32, 1087, 1088, 1086, 1081, 1090, 1080] \<comment> \<open>kak projti\<close> t \<or>
     contains [1084, 1077, 1089, 1090, 1086, 1087, 1086, 1083, 1086, 1078, 1077, 1085, 1080, 1077] \<comment> \<open>mestopolozhenie\<close> t \<or>
     contains [1088, 1072, 1089, 1087, 1086, 1083, 1086, 1078, 1077, 1085, 1080, 1077] \<comment> \<open>raspolozhenie\<close> t"

definition other_places :: "ustr list" where
  "other_places =
     [[1076, 1077, 1082, 1072, 1085, 1072, 1090] \<comment> \<open>dekanat\<close>,
      [1091, 1095, 1077, 1073, 1085, 1072, 1103, 32, 1095, 1072, 1089, 1090, 1100] \<comment> \<open>uchebnaya chast'\<close>,
      [1089, 1090, 1091, 1076, 1089, 1086, 1074, 1077, 1090] \<comment> \<open>studsovet\<close>,
      [1073, 1091, 1093, 1075, 1072, 1083, 1090, 1077, 1088, 1080, 1103] \<comment> \<open>buhgalteriya\<close>,
      [1072, 1082, 1090, 1086, 1074, 1099, 1081, 32, 1079, 1072, 1083] \<comment> \<open>aktovyj zal\<close>,
      [1089, 1087, 1086, 1088, 1090, 1079, 1072, 1083] \<comment> \<open>sportzal\<close>,
      [1084, 1077, 1076, 1087, 1091, 1085, 1082, 1090] \<comment> \<open>medpunkt\<close>]"

definition step_navigation :: "ustr \<Rightarrow> ustr list \<Rightarrow> result option" where
  "step_navigation t keywords =
     (if locative_marker t then
        (if contains [1073, 1080, 1073, 1083, 1080, 1086, 1090, 1077, 1082] \<comment> \<open>bibliotek\<close> t
         then Some (''navigation'', [[1073, 1080, 1073, 1083, 1080, 1086, 1090, 1077, 1082, 1072] \<comment> \<open>biblioteka\<close>])
         else if contains [1089, 1090, 1086, 1083, 1086, 1074] \<comment> \<open>stolov\<close> t \<or>
                 contains [1073, 1091, 1092, 1077, 1090] \<comment> \<open>bufet\<close> t \<or>
                 contains [1087, 1086, 1077, 1089, 1090, 1100] \<comment> \<open>poest'\<close> t \<or>
                 contains [1077, 1076, 1072] \<comment> \<open>eda\<close> t
         then Some (''navigation'', [[1089, 1090, 1086, 1083, 1086, 1074, 1072, 1103] \<comment> \<open>stolovaya\<close>])
         else if contains [118, 114] \<comment> \<open>vr\<close> t \<or> contains [1083, 1072, 1073, 1086, 1088, 1072, 1090, 1086, 1088] \<comment> \<open>laborator\<close> t
         then Some (''navigation'', [[1083, 1072, 1073, 1086, 1088, 1072, 1090, 1086, 1088, 1080, 1103] \<comment> \<open>laboratoriya\<close>])
         else (case find (\<lambda>loc. contains loc t) other_places of
                 Some loc \<Rightarrow> Some (''navigation'', [loc])
               | None \<Rightarrow> Some (''navigation'', keywords)))
      else None)"

definition common_words :: "ustr list" where
  "common_words =
     [[1075, 1076, 1077] \<comment> \<open>gde\<close>,
      [1082, 1072, 1082] \<comment> \<open>kak\<close>,
      [1095, 1090, 1086] \<comment> \<open>chto\<close>,
      [1082, 1086, 1075, 1076, 1072] \<comment> \<open>kogda\<close>,
      [1087, 1086, 1095, 1077, 1084, 1091] \<comment> \<open>pochemu\<close>,
      [1082, 1090, 1086] \<comment> \<open>kto\<close>,
      [1085, 1072, 1093, 1086, 1076, 1080, 1090, 1100, 1089, 1103] \<comment> \<open>nahodit'sya\<close>,
      [1088, 1072, 1089, 1087, 1086, 1083, 1086, 1078, 1077, 1085] \<comment> \<open>raspolozhen\<close>]"

definition has_common_word :: "ustr \<Rightarrow> bool" where
  "has_common_word word \<longleftrightarrow> list_ex (\<lambda>common_word. contains common_word (lower word)) common_words"

definition teacher_nouns :: "ustr list" where
  "teacher_nouns =
     [[1087, 1088, 1077, 1087, 1086, 1076, 1072, 1074, 1072, 1090, 1077, 1083, 1100] \<comment> \<open>prepodavatel'\<close>,
      [1091, 1095, 1080, 1090, 1077, 1083, 1100] \<comment> \<open>uchitel'\<close>,
      [1087, 1077, 1076, 1072, 1075, 1086, 1075] \<comment> \<open>pedagog\<close>]"

definition step_teacher_mention :: "ustr \<Rightarrow> ustr list \<Rightarrow> result option" where
  "step_teacher_mention t keywords =
     (if list_ex (\<lambda>word. contains word t) teacher_nouns then
        (case find (\<lambda>word. 3 < length word \<and> isalpha word \<and> \<not> has_common_word word) keywords of
           Some word \<Rightarrow> Some (''teacher'', [word])
         | None \<Rightarrow> None)
      else None)"

definition step_capitalized :: "ustr list \<Rightarrow> result option" where
  "step_capitalized keywords =
     (case find (\<lambda>word. 3 < length word \<and> isalpha word \<and> is_upper (hd word) \<and>
                         \<not> has_common_word word) keywords of
        Some word \<Rightarrow> Some (''teacher'', [word])
      | None \<Rightarrow> None)"

definition step_discipline :: "nlp \<Rightarrow> ustr \<Rightarrow> result option" where
  \<comment> \<open>\<^verbatim>\<open>if discipline:\<close> is false for \<^verbatim>\<open>None\<close> and for the empty string\<close>
  "step_discipline p t =
     (case find_discipline_in_text p t of
        Some discipline \<Rightarrow> if discipline \<noteq> [] then Some (''discipline'', [discipline]) else None
      | None \<Rightarrow> None)"

definition step_phrases :: "ustr \<Rightarrow> ustr list \<Rightarrow> result option" where
  "step_phrases t keywords =
     (if contains [1087, 1088, 1077, 1087, 1086, 1076, 1072, 1074, 1072, 1090, 1077, 1083, 1080] \<comment> \<open>prepodavateli\<close> t \<or>
         contains [1086, 32, 1087, 1088, 1077, 1087, 1086, 1076, 1072, 1074, 1072, 1090, 1077, 1083, 1103, 1093] \<comment> \<open>o prepodavatelyah\<close> t \<or>
         contains [1089, 1087, 1080, 1089, 1086, 1082, 32, 1087, 1088, 1077, 1087, 1086, 1076, 1072, 1074, 1072, 1090, 1077, 1083, 1077, 1081] \<comment> \<open>spisok prepodavatelej\<close> t
      then Some (''teacher'', keywords)
      else if contains [1089, 1090, 1086, 1083, 1086, 1074, 1072, 1103] \<comment> \<open>stolovaya\<close> t \<or>
              contains [1073, 1091, 1092, 1077, 1090] \<comment> \<open>bufet\<close> t \<or>
              contains [1087, 1086, 1077, 1089, 1090, 1100] \<comment> \<open>poest'\<close> t
      then Some (''navigation'', [1089, 1090, 1086, 1083, 1086, 1074, 1072, 1103] \<comment> \<open>stolovaya\<close> # keywords)
      else None)"

definition step_exact :: "ustr list \<Rightarrow> result option" where
  "step_exact keywords =
     (case find (\<lambda>(category, category_keywords).
                    list_ex (\<lambda>keyword. keyword \<in> set category_keywords) keywords) categories of
        Some (category, category_keywords) \<Rightarrow> Some (category, keywords)
      | None \<Rightarrow> None)"

definition fuzzy_hit :: "ustr \<Rightarrow> ustr \<Rightarrow> bool" where
  "fuzzy_hit keyword category_word \<longleftrightarrow>
     (3 < length keyword \<and> contains keyword category_word) \<or>
     (3 < length category_word \<and> contains category_word keyword)"

definition fuzzy_category :: "ustr list \<Rightarrow> string \<times> ustr list \<Rightarrow> bool" where
  "fuzzy_category keywords = (\<lambda>(category, category_keywords).
     list_ex (\<lambda>keyword. list_ex (fuzzy_hit keyword) category_keywords) keywords)"

definition step_fuzzy :: "ustr list \<Rightarrow> result option" where
  "step_fuzzy keywords =
     (case find (fuzzy_category keywords) categories of
        Some (category, category_keywords) \<Rightarrow> Some (category, keywords)
      | None \<Rightarrow> None)"

fun first_some :: "'a option list \<Rightarrow> 'a option" where
  "first_some [] = None"
| "first_some (Some r # rs) = Some r"
| "first_some (None # rs) = first_some rs"

definition chain_steps :: "nlp \<Rightarrow> ustr \<Rightarrow> result option list" where
  \<comment> \<open>the conditionals of \<^verbatim>\<open>categorize_query\<close> in the order they are written\<close>
  "chain_steps p text =
     (let text_lower = lower text; keywords = query_keywords p text_lower in
      [step_roster p keywords,
       step_navigation text_lower keywords,
       step_teacher_mention text_lower keywords,
       step_capitalized keywords,
       step_discipline p text_lower,
       step_phrases text_lower keywords,
       step_exact keywords,
       step_fuzzy keywords])"

definition categorize_chain :: "nlp \<Rightarrow> ustr \<Rightarrow> result" where
  \<comment> \<open>the body of the \<^verbatim>\<open>try\<close> block of \<^verbatim>\<open>categorize_query\<close>, for a string\<close>
  "categorize_chain p text =
     (case first_some (chain_steps p text) of
        Some r \<Rightarrow> r
      | None \<Rightarrow> (''unknown'', query_keywords p (lower text)))"

section \<open>The boundary of the classifier and the dispatcher\<close>

text \<open>
  The body of \<^verbatim>\<open>categorize_query\<close> stands in \<^verbatim>\<open>try: ... except Exception\<close>. With a
  string it runs to its end: the one call that can raise, the analyser's, is caught word
  by word in \<^verbatim>\<open>normalize_word\<close>. Python being untyped, the method can also be handed a
  value that is no string (\<open>Other\<close>, for instance \<^verbatim>\<open>None\<close>); then \<^verbatim>\<open>text.lower()\<close> or the
  first regular expression raises inside the block.

  The formatters \<^verbatim>\<open>_process_*_query\<close> read the data store and render the answer; they
  are parameters of the dispatcher, each giving its text or a fault.
\<close>

datatype pyarg = Text ustr | Other

datatype fault = Fault

definition chain_body :: "nlp \<Rightarrow> pyarg \<Rightarrow> fault + result" where
  "chain_body p a = (case a of Text text \<Rightarrow> Inr (categorize_chain p text) | Other \<Rightarrow> Inl Fault)"

definition categorize_query :: "nlp \<Rightarrow> pyarg \<Rightarrow> result" where
  "categorize_query p a = (case chain_body p a of Inr r \<Rightarrow> r | Inl e \<Rightarrow> (''unknown'', []))"

record formatters =
  process_teacher_query :: "ustr list \<Rightarrow> fault + ustr"
  process_discipline_query :: "ustr list \<Rightarrow> fault + ustr"
  process_sport_query :: "fault + ustr"
  process_document_query :: "fault + ustr"
  process_navigation_query :: "ustr list \<Rightarrow> fault + ustr"
  process_event_query :: "fault + ustr"
  process_dormitory_query :: "fault + ustr"

definition clarification_prompt :: ustr where
  "clarification_prompt =
     [1055, 1086, 1078, 1072, 1083, 1091, 1081, 1089, 1090, 1072, 44, 32, 1089, 1092, 1086, 1088, 1084, 1091, 1083, 1080, 1088, 1091, 1081, 1090, 1077, 32, 1074, 1086, 1087, 1088, 1086, 1089, 32, 1087, 1086, 1076, 1088, 1086, 1073, 1085, 1077, 1077, 46] \<comment> \<open>Pozhalujsta, sformulirujte vopros podrobnee.\<close>"

definition not_understood :: ustr where
  "not_understood =
     [1048, 1079, 1074, 1080, 1085, 1080, 1090, 1077, 44, 32, 1103, 32, 1085, 1077, 32, 1089, 1084, 1086, 1075, 32, 1087, 1086, 1085, 1103, 1090, 1100, 32, 1074, 1072, 1096, 32, 1074, 1086, 1087, 1088, 1086, 1089, 46, 32, 1055, 1086, 1087, 1088, 1086, 1073, 1091, 1081, 1090, 1077, 32, 1087, 1077, 1088, 1077, 1092, 1086, 1088, 1084, 1091, 1083, 1080, 1088, 1086, 1074, 1072, 1090, 1100, 32, 1080, 1083, 1080, 32, 1074, 1099, 1073, 1077, 1088, 1080, 1090, 1077, 32, 1087, 1091, 1085, 1082, 1090, 32, 1080, 1079, 32, 1084, 1077, 1085, 1102, 46] \<comment> \<open>Izvinite, ya ne smog ponyat' vash vopros. Poprobujte pereformulirovat' ili vyberite punkt iz menyu.\<close>"

definition processing_error :: ustr where
  "processing_error =
     [1055, 1088, 1086, 1080, 1079, 1086, 1096, 1083, 1072, 32, 1086, 1096, 1080, 1073, 1082, 1072, 32, 1087, 1088, 1080, 32, 1086, 1073, 1088, 1072, 1073, 1086, 1090, 1082, 1077, 32, 1079, 1072, 1087, 1088, 1086, 1089, 1072, 46, 32, 1055, 1086, 1078, 1072, 1083, 1091, 1081, 1089, 1090, 1072, 44, 32, 1087, 1086, 1087, 1088, 1086, 1073, 1091, 1081, 1090, 1077, 32, 1087, 1086, 1079, 1078, 1077, 46] \<comment> \<open>Proizoshla oshibka pri obrabotke zaprosa. Pozhalujsta, poprobujte pozzhe.\<close>"

definition dispatch :: "formatters \<Rightarrow> string \<Rightarrow> ustr list \<Rightarrow> fault + ustr" where
  "dispatch f category keywords =
     (if category = ''teacher'' then process_teacher_query f keywords
      else if category = ''discipline'' then process_discipline_query f keywords
      else if category = ''sport'' then process_sport_query f
      else if category = ''document'' then process_document_query f
      else if category = ''navigation'' then process_navigation_query f keywords
      else if category = ''event'' then process_event_query f
      else if category = ''dormitory'' then process_dormitory_query f
      else Inr not_understood)"

definition process_query :: "nlp \<Rightarrow> formatters \<Rightarrow> pyarg \<Rightarrow> ustr option" where
  \<comment> \<open>\<open>None\<close> is Python's \<^verbatim>\<open>None\<close>: the text is a command and is left to the command handler\<close>
  "process_query p f a =
     (case a of
        Other \<Rightarrow> Some processing_error
      | Text text \<Rightarrow>
          if starts_with [47] text then None
          else (case categorize_query p (Text text) of
                  (category, keywords) \<Rightarrow>
                    if keywords = [] then Some clarification_prompt
                    else (case dispatch f category keywords of
                            Inr response \<Rightarrow> Some response
                          | Inl e \<Rightarrow> Some processing_error)))"

section \<open>Processors used in the examples\<close>

definition morph_table :: "(ustr \<times> ustr) list \<Rightarrow> ustr \<Rightarrow> ustr option" where
  \<comment> \<open>an analyser that knows the listed normal forms and returns any other word unchanged\<close>
  "morph_table tbl word = (case map_of tbl word of Some nf \<Rightarrow> Some nf | None \<Rightarrow> Some word)"

definition nlp_with :: "(ustr \<times> ustr) list \<Rightarrow> (ustr \<times> ustr) list \<Rightarrow> nlp" where
  "nlp_with tbl idx =
     \<lparr>morph = morph_table tbl, teacher_surnames = idx, discipline_order = discipline_keywords\<rparr>"

section \<open>Notions used to state the properties\<close>

subsection \<open>Roster build\<close>

definition skip_warning :: "teacher_rec \<Rightarrow> log_entry" where
  \<comment> \<open>the diagnostic that the loop logs for a record that it skips\<close>
  "skip_warning r = (case r of Row fs \<Rightarrow> Warning_insufficient_fields r | NotRow \<Rightarrow> Warning_invalid_type)"

definition is_skip :: "log_entry \<Rightarrow> bool" where
  "is_skip e = (case e of Warning_invalid_type \<Rightarrow> True | Warning_insufficient_fields r \<Rightarrow> True | _ \<Rightarrow> False)"

definition index_step :: "(ustr \<times> ustr) list \<Rightarrow> teacher_rec \<Rightarrow> (ustr \<times> ustr) list" where
  \<comment> \<open>what one round of the loop does to the index\<close>
  "index_step idx r = (if valid_row r then AList.update (row_key r) (row_name r) idx else idx)"

definition three_field_record :: teacher_rec where
  "three_field_record =
     Row [FStr [1048, 1074, 1072, 1085, 1086, 1074] \<comment> \<open>Ivanov\<close>,
          FStr [1048, 1074, 1072, 1085] \<comment> \<open>Ivan\<close>,
          FStr [1048, 1074, 1072, 1085, 1086, 1074, 1080, 1095] \<comment> \<open>Ivanovich\<close>]"

definition roster_rows :: "teacher_rec list" where
  "roster_rows =
     [Row [FInt 1, FStr [1048, 1074, 1072, 1085, 1086, 1074] \<comment> \<open>Ivanov\<close>,
           FStr [1048, 1074, 1072, 1085] \<comment> \<open>Ivan\<close>,
           FStr [1048, 1074, 1072, 1085, 1086, 1074, 1080, 1095] \<comment> \<open>Ivanovich\<close>,
           FStr [1076, 1086, 1094, 1077, 1085, 1090] \<comment> \<open>docent\<close>],
      Row [FInt 2, FStr [1055, 1077, 1090, 1088, 1086, 1074] \<comment> \<open>Petrov\<close>,
           FStr [1055, 1105, 1090, 1088] \<comment> \<open>Pyotr\<close>, FNone],
      three_field_record,
      NotRow,
      Row [FInt 5, FStr [1048, 1042, 1040, 1053, 1054, 1042] \<comment> \<open>IVANOV\<close>,
           FStr [1054, 1083, 1077, 1075] \<comment> \<open>Oleg\<close>,
           FStr [1048, 1083, 1100, 1080, 1095] \<comment> \<open>Il'ich\<close>]]"

subsection \<open>Example queries\<close>

definition where_query :: ustr where
  "where_query = [1075, 1076, 1077, 63] \<comment> \<open>gde?\<close>"

definition fixed_formatters :: "ustr \<Rightarrow> formatters" where
  \<comment> \<open>formatters that all answer with the same text\<close>
  "fixed_formatters answer =
     \<lparr>process_teacher_query = (\<lambda>keywords. Inr answer),
      process_discipline_query = (\<lambda>keywords. Inr answer),
      process_sport_query = Inr answer,
      process_document_query = Inr answer,
      process_navigation_query = (\<lambda>keywords. Inr answer),
      process_event_query = Inr answer,
      process_dormitory_query = Inr answer\<rparr>"

definition library_surname_query :: ustr where
  "library_surname_query = [1043, 1076, 1077, 32, 1073, 1080, 1073, 1083, 1080, 1086, 1090, 1077, 1082, 1072, 44, 32, 1048, 1074, 1072, 1085, 1086, 1074, 1072, 63] \<comment> \<open>Gde biblioteka, Ivanova?\<close>"

definition ivanov_nlp :: nlp where
  "ivanov_nlp =
     nlp_with [([1080, 1074, 1072, 1085, 1086, 1074, 1072] \<comment> \<open>ivanova\<close>, [1080, 1074, 1072, 1085, 1086, 1074] \<comment> \<open>ivanov\<close>)]
              [([1087, 1077, 1090, 1088, 1086, 1074] \<comment> \<open>petrov\<close>, [1055, 1077, 1090, 1088, 1086, 1074, 32, 1055, 1105, 1090, 1088, 32, 1055, 1077, 1090, 1088, 1086, 1074, 1080, 1095] \<comment> \<open>Petrov Pyotr Petrovich\<close>),
               ([1080, 1074, 1072, 1085, 1086, 1074] \<comment> \<open>ivanov\<close>, [1048, 1074, 1072, 1085, 1086, 1074, 32, 1048, 1074, 1072, 1085, 32, 1048, 1074, 1072, 1085, 1086, 1074, 1080, 1095] \<comment> \<open>Ivanov Ivan Ivanovich\<close>)]"

subsection \<open>Reaching a step of the chain\<close>

definition reaches :: "nat \<Rightarrow> nlp \<Rightarrow> ustr \<Rightarrow> bool" where
  \<comment> \<open>the first \<open>k\<close> conditionals of the chain do not return: the roster match, the
      navigation phrasing, the teacher mention, the capitalized surname, the discipline in
      the text, the category phrases, the exact keywords, the fuzzy keywords\<close>
  "reaches k p text \<longleftrightarrow> list_all (\<lambda>r. r = None) (take k (chain_steps p text))"

definition surname_teaches_query :: ustr where
  "surname_teaches_query = [1048, 1074, 1072, 1085, 1086, 1074, 32, 1074, 1077, 1076, 1077, 1090, 32, 1084, 1072, 1090, 1077, 1084, 1072, 1090, 1080, 1082, 1091] \<comment> \<open>Ivanov vedet matematiku\<close>"

definition who_teaches_query :: ustr where
  "who_teaches_query = [1050, 1090, 1086, 32, 1074, 1077, 1076, 1077, 1090, 32, 1084, 1072, 1090, 1077, 1084, 1072, 1090, 1080, 1082, 1091, 63] \<comment> \<open>Kto vedet matematiku?\<close>"

definition teaches_nlp :: "(ustr \<times> ustr) list \<Rightarrow> nlp" where
  \<comment> \<open>the analyser knows the verb and the accusative of the course name\<close>
  "teaches_nlp idx =
     nlp_with [([1074, 1077, 1076, 1077, 1090] \<comment> \<open>vedet\<close>, [1074, 1077, 1089, 1090, 1080] \<comment> \<open>vesti\<close>),
               ([1084, 1072, 1090, 1077, 1084, 1072, 1090, 1080, 1082, 1091] \<comment> \<open>matematiku\<close>, [1084, 1072, 1090, 1077, 1084, 1072, 1090, 1080, 1082, 1072] \<comment> \<open>matematika\<close>)] idx"

subsection \<open>Discipline codes\<close>









subsection \<open>Queries for the fuzzy step and the normalizer\<close>

definition room_adjective_query :: ustr where
  "room_adjective_query = [1082, 1086, 1084, 1085, 1072, 1090, 1085, 1099, 1081] \<comment> \<open>komnatnyj\<close>"

definition documentation_query :: ustr where
  "documentation_query = [1076, 1086, 1082, 1091, 1084, 1077, 1085, 1090, 1072, 1094, 1080, 1103] \<comment> \<open>dokumentaciya\<close>"

definition clean_word :: "ustr \<Rightarrow> bool" where
  \<comment> \<open>a word as the tokenizer produces it: not empty, of word characters, in lower case\<close>
  "clean_word w \<longleftrightarrow> w \<noteq> [] \<and> list_all (\<lambda>c. is_word c \<and> lower_cp c = c) w"

definition stable_token :: "nlp \<Rightarrow> ustr \<Rightarrow> bool" where
  "stable_token p t \<longleftrightarrow> clean_word t \<and> normalize_word p t = t"

definition squirrels_nlp :: nlp where
  \<comment> \<open>an analyser that reads \<open>belki\<close> as the plural of \<open>belok\<close> (protein) and \<open>belok\<close> as
      the genitive plural of \<open>belka\<close> (squirrel)\<close>
  "squirrels_nlp =
     nlp_with [([1073, 1077, 1083, 1082, 1080] \<comment> \<open>belki\<close>, [1073, 1077, 1083, 1086, 1082] \<comment> \<open>belok\<close>),
               ([1073, 1077, 1083, 1086, 1082] \<comment> \<open>belok\<close>, [1073, 1077, 1083, 1082, 1072] \<comment> \<open>belka\<close>)] []"

definition library_query :: ustr where
  "library_query = [1043, 1076, 1077, 32, 1085, 1072, 1093, 1086, 1076, 1080, 1090, 1089, 1103, 32, 1073, 1080, 1073, 1083, 1080, 1086, 1090, 1077, 1082, 1072, 63] \<comment> \<open>Gde nahoditsya biblioteka?\<close>"

definition located_nlp :: nlp where
  "located_nlp = nlp_with [([1085, 1072, 1093, 1086, 1076, 1080, 1090, 1089, 1103] \<comment> \<open>nahoditsya\<close>, [1085, 1072, 1093, 1086, 1076, 1080, 1090, 1100, 1089, 1103] \<comment> \<open>nahodit'sya\<close>)] []"

section \<open>The roster index: build and lookup\<close>

lemma index_records_Cons:
  "fst (index_records idx (r # ts)) = fst (index_records (index_step idx r) ts)"
  by (cases r) (simp_all add: index_step_def valid_row_def row_key_def row_name_def split: prod.splits)

lemma index_records_foldl: "fst (index_records idx ts) = foldl index_step idx ts"
  by (induction ts arbitrary: idx) (simp_all add: index_records_Cons del: index_records.simps(2,3))

lemma index_step_keys:
  "fst ` set (index_step idx r) = fst ` set idx \<union> row_key ` set (filter valid_row [r])"
  by (simp add: index_step_def dom_update)

lemma index_records_keys:
  "fst ` set (fst (index_records idx ts)) = fst ` set idx \<union> row_key ` set (filter valid_row ts)"
  unfolding index_records_foldl
proof (induction ts arbitrary: idx)
  case Nil
  show ?case by simp
next
  case (Cons r ts)
  show ?case by (simp add: Cons.IH index_step_keys Un_assoc) 
qed

lemma index_records_log:
  "filter is_skip (snd (index_records idx ts)) = map skip_warning (filter (\<lambda>r. \<not> valid_row r) ts)"
  by (induction idx ts rule: index_records.induct)
     (auto simp: is_skip_def skip_warning_def valid_row_def split: prod.splits)

lemma index_step_distinct: "distinct (map fst idx) \<Longrightarrow> distinct (map fst (index_step idx r))"
  by (simp add: index_step_def distinct_update)

lemma index_records_distinct:
  "distinct (map fst idx) \<Longrightarrow> distinct (map fst (fst (index_records idx ts)))"
  unfolding index_records_foldl
  by (induction ts arbitrary: idx) (simp_all add: index_step_distinct)

lemma index_records_other:
  "k \<notin> row_key ` set (filter valid_row ts) \<Longrightarrow> map_of (fst (index_records idx ts)) k = map_of idx k"
  unfolding index_records_foldl
proof (induction ts arbitrary: idx)
  case Nil
  show ?case by simp
next
  case (Cons r ts)
  then show ?case by (auto simp: index_step_def update_conv' split: if_splits)
qed

lemma index_records_last:
  assumes "valid_row r" and "row_key r \<notin> row_key ` set (filter valid_row post)"
  shows "map_of (fst (index_records idx (pre @ r # post))) (row_key r) = Some (row_name r)"
proof -
  have "fst (index_records idx (pre @ r # post)) =
        fst (index_records (index_step (foldl index_step idx pre) r) post)"
    by (simp add: index_records_foldl)
  then show ?thesis
    using assms by (simp add: index_records_other) (simp add: index_step_def update_conv')
qed

lemma roster_entry_key:
  "roster_entry idx word = Some (k, full) \<Longrightarrow> distinct (map fst idx) \<Longrightarrow> map_of idx k = Some full"
  unfolding roster_entry_def
  by (auto simp: find_Some_iff intro!: map_of_is_SomeI) (metis nth_mem)

text \<open>
  Claim C4, as the program has it. The rows come from the staff table with the row id in
  front, so the loop reads the surname, the given name and the patronymic at positions 1,
  2 and 3 and asks for at least four fields. For every sequence of records, the keys of
  the index are exactly the lower-cased surnames (field 1) of the list or tuple records
  with at least four fields; every other record is skipped, and the log holds one warning
  for each skipped record, in the order of the input; the rest of the processor is left
  as it was. The function is total: no input makes it raise.
\<close>

theorem roster_build_indexes_four_field_rows:
  "fst ` set (teacher_surnames (fst (set_teacher_surnames p ts))) = row_key ` set (filter valid_row ts) \<and>
   filter is_skip (snd (set_teacher_surnames p ts)) = map skip_warning (filter (\<lambda>r. \<not> valid_row r) ts) \<and>
   morph (fst (set_teacher_surnames p ts)) = morph p"
proof (cases "ts = []")
  case True
  then show ?thesis by (simp add: set_teacher_surnames_def is_skip_def)
next
  case False
  obtain idx lg where r: "index_records [] ts = (idx, lg)" by (cases "index_records [] ts")
  have "fst ` set idx = row_key ` set (filter valid_row ts)"
    using index_records_keys [of "[]" ts] r by simp
  moreover have "filter is_skip lg = map skip_warning (filter (\<lambda>r. \<not> valid_row r) ts)"
    using index_records_log [of "[]" ts] r by simp
  ultimately show ?thesis
    using False r by (simp add: set_teacher_surnames_def is_skip_def)
qed

text \<open>
  The claim as written asks for three fields, surname first. A record of exactly the
  three fields surname, given name, patronymic is skipped with a warning, and the index
  stays empty.
\<close>

theorem roster_build_three_fields_counterexample:
  "teacher_surnames (fst (set_teacher_surnames (nlp_with [] []) [three_field_record])) = [] \<and>
   snd (set_teacher_surnames (nlp_with [] []) [three_field_record]) =
     [Warning_insufficient_fields three_field_record, Info_initialized 0]"
  by code_simp

text \<open>
  Claim C10. When a record with at least four fields is the last such record of the
  sequence with its lower-cased surname, the index maps that surname to the full name of
  this record, whatever earlier records of the same surname said. The keys of the index
  are distinct, so every match that goes through this surname returns that full name;
  the order of insertion matters between different surnames only.
\<close>

theorem roster_build_last_record_wins:
  assumes "ts = pre @ r # post"
    and "valid_row r"
    and "row_key r \<notin> row_key ` set (filter valid_row post)"
  shows "distinct (map fst (teacher_surnames (fst (set_teacher_surnames p ts)))) \<and>
         map_of (teacher_surnames (fst (set_teacher_surnames p ts))) (row_key r) = Some (row_name r) \<and>
         (\<forall>word full. roster_entry (teacher_surnames (fst (set_teacher_surnames p ts))) word
                         = Some (row_key r, full) \<longrightarrow> full = row_name r)"
proof -
  obtain idx lg where r: "index_records [] ts = (idx, lg)" by (cases "index_records [] ts")
  have ts: "ts \<noteq> []" using assms(1) by simp
  have idx: "teacher_surnames (fst (set_teacher_surnames p ts)) = idx"
    using ts r by (simp add: set_teacher_surnames_def)
  have d: "distinct (map fst idx)"
    using index_records_distinct [of "[]" ts] r by simp
  have m: "map_of idx (row_key r) = Some (row_name r)"
    using index_records_last [OF assms(2,3), of "[]" pre] r assms(1) by simp
  have "full = row_name r" if "roster_entry idx word = Some (row_key r, full)" for word full
    using roster_entry_key [OF that d] m by simp
  with d m show ?thesis unfolding idx by blast
qed

theorem roster_build_last_record_wins_witness:
  "roster_rows = take 4 roster_rows @ roster_rows ! 4 # [] \<and>
   valid_row (roster_rows ! 4) \<and>
   row_key (roster_rows ! 4) \<notin> row_key ` set (filter valid_row []) \<and>
   teacher_surnames (fst (set_teacher_surnames (nlp_with [] []) roster_rows)) =
     [([1080, 1074, 1072, 1085, 1086, 1074] \<comment> \<open>ivanov\<close>, [1048, 1042, 1040, 1053, 1054, 1042, 32, 1054, 1083, 1077, 1075, 32, 1048, 1083, 1100, 1080, 1095] \<comment> \<open>IVANOV Oleg Il'ich\<close>),
      ([1087, 1077, 1090, 1088, 1086, 1074] \<comment> \<open>petrov\<close>, [1055, 1077, 1090, 1088, 1086, 1074, 32, 1055, 1105, 1090, 1088, 32, 78, 111, 110, 101] \<comment> \<open>Petrov Pyotr None\<close>)] \<and>
   roster_entry (teacher_surnames (fst (set_teacher_surnames (nlp_with [] []) roster_rows)))
       [1080, 1074, 1072, 1085, 1086, 1074, 1086, 1081] \<comment> \<open>ivanovoj\<close> = Some (row_key (roster_rows ! 4), row_name (roster_rows ! 4)) \<and>
   map_of (teacher_surnames (fst (set_teacher_surnames (nlp_with [] []) roster_rows)))
       (row_key (roster_rows ! 4)) = Some [1048, 1042, 1040, 1053, 1054, 1042, 32, 1054, 1083, 1077, 1075, 32, 1048, 1083, 1100, 1080, 1095] \<comment> \<open>IVANOV Oleg Il'ich\<close>"
proof -
  have h1: "roster_rows = take 4 roster_rows @ roster_rows ! 4 # []" by code_simp
  have h2: "valid_row (roster_rows ! 4)" by code_simp
  have h3: "row_key (roster_rows ! 4) \<notin> row_key ` set (filter valid_row [])" by simp
  have e: "teacher_surnames (fst (set_teacher_surnames (nlp_with [] []) roster_rows)) =
     [([1080, 1074, 1072, 1085, 1086, 1074] \<comment> \<open>ivanov\<close>, [1048, 1042, 1040, 1053, 1054, 1042, 32, 1054, 1083, 1077, 1075, 32, 1048, 1083, 1100, 1080, 1095] \<comment> \<open>IVANOV Oleg Il'ich\<close>),
      ([1087, 1077, 1090, 1088, 1086, 1074] \<comment> \<open>petrov\<close>, [1055, 1077, 1090, 1088, 1086, 1074, 32, 1055, 1105, 1090, 1088, 32, 78, 111, 110, 101] \<comment> \<open>Petrov Pyotr None\<close>)]" by code_simp
  have n: "row_name (roster_rows ! 4) = [1048, 1042, 1040, 1053, 1054, 1042, 32, 1054, 1083, 1077, 1075, 32, 1048, 1083, 1100, 1080, 1095] \<comment> \<open>IVANOV Oleg Il'ich\<close>" by code_simp
  have k: "roster_entry [([1080, 1074, 1072, 1085, 1086, 1074] \<comment> \<open>ivanov\<close>, [1048, 1042, 1040, 1053, 1054, 1042, 32, 1054, 1083, 1077, 1075, 32, 1048, 1083, 1100, 1080, 1095] \<comment> \<open>IVANOV Oleg Il'ich\<close>),
      ([1087, 1077, 1090, 1088, 1086, 1074] \<comment> \<open>petrov\<close>, [1055, 1077, 1090, 1088, 1086, 1074, 32, 1055, 1105, 1090, 1088, 32, 78, 111, 110, 101] \<comment> \<open>Petrov Pyotr None\<close>)]
       [1080, 1074, 1072, 1085, 1086, 1074, 1086, 1081] \<comment> \<open>ivanovoj\<close> = Some (row_key (roster_rows ! 4), row_name (roster_rows ! 4))" by code_simp
  show ?thesis
    using roster_build_last_record_wins [OF h1 h2 h3, of "nlp_with [] []"] h1 h2 h3 e n k
    by simp
qed

section \<open>The classifier returns one category of the closed set\<close>

lemma first_some_mem: "first_some rs = Some r \<Longrightarrow> Some r \<in> set rs"
  by (induction rs rule: first_some.induct) simp_all

lemma category_of_categories:
  "(c, ws) \<in> set categories \<Longrightarrow> c \<in> set category_names"
  by (auto simp: categories_def category_names_def)

lemma find_mem: "find P xs = Some x \<Longrightarrow> x \<in> set xs"
  by (auto simp: find_Some_iff)

lemma step_roster_category: "step_roster p ks = Some r \<Longrightarrow> fst r = ''teacher''"
  by (auto simp: step_roster_def split: option.splits)

lemma step_navigation_category: "step_navigation t ks = Some r \<Longrightarrow> fst r = ''navigation''"
  by (auto simp: step_navigation_def split: option.splits if_splits)

lemma step_teacher_mention_category: "step_teacher_mention t ks = Some r \<Longrightarrow> fst r = ''teacher''"
  by (auto simp: step_teacher_mention_def split: option.splits if_splits)

lemma step_capitalized_category: "step_capitalized ks = Some r \<Longrightarrow> fst r = ''teacher''"
  by (auto simp: step_capitalized_def split: option.splits)

lemma step_discipline_category: "step_discipline p t = Some r \<Longrightarrow> fst r = ''discipline''"
  by (auto simp: step_discipline_def split: option.splits if_splits)

lemma step_phrases_category:
  "step_phrases t ks = Some r \<Longrightarrow> fst r = ''teacher'' \<or> fst r = ''navigation''"
  by (auto simp: step_phrases_def split: if_splits)

lemma step_exact_category: "step_exact ks = Some r \<Longrightarrow> fst r \<in> set category_names"
  by (auto simp: step_exact_def split: option.splits dest!: find_mem category_of_categories)

lemma step_fuzzy_category: "step_fuzzy ks = Some r \<Longrightarrow> fst r \<in> set category_names"
  by (auto simp: step_fuzzy_def split: option.splits dest!: find_mem category_of_categories)

lemma chain_steps_category:
  assumes "Some r \<in> set (chain_steps p text)"
  shows "fst r \<in> set category_names"
proof -
  have names: "''teacher'' \<in> set category_names" "''navigation'' \<in> set category_names"
    "''discipline'' \<in> set category_names"
    by (simp_all add: category_names_def)
  from assms show ?thesis
    unfolding chain_steps_def Let_def set_simps insert_iff empty_iff
    using names
    by (metis step_roster_category step_navigation_category step_teacher_mention_category
        step_capitalized_category step_discipline_category step_phrases_category
        step_exact_category step_fuzzy_category)
qed

lemma categorize_chain_category: "fst (categorize_chain p text) \<in> set category_names"
proof (cases "first_some (chain_steps p text)")
  case None
  then show ?thesis by (simp add: categorize_chain_def category_names_def)
next
  case (Some r)
  then show ?thesis
    using chain_steps_category [OF first_some_mem [OF Some]] by (simp add: categorize_chain_def)
qed

text \<open>
  Claim C3. For every argument, a string or not, \<^verbatim>\<open>categorize_query\<close> returns a pair whose
  category is one of the eight names teacher, discipline, document, navigation, event,
  sport, dormitory, unknown. It is a total function: a fault inside the chain does not
  leave it, and whenever the body of the \<^verbatim>\<open>try\<close> block faults, the result is
  \<^verbatim>\<open>('unknown', [])\<close>.
\<close>

theorem categorize_query_closed_and_total:
  "fst (categorize_query p a) \<in> set category_names \<and>
   (\<forall>e. chain_body p a = Inl e \<longrightarrow> categorize_query p a = (''unknown'', []))"
proof (cases a)
  case (Text t)
  then show ?thesis
    using categorize_chain_category [of p t] by (simp add: categorize_query_def chain_body_def)
next
  case Other
  then show ?thesis by (simp add: categorize_query_def chain_body_def category_names_def)
qed

theorem categorize_query_closed_and_total_witness:
  "chain_body (nlp_with [] []) Other = Inl Fault \<and>
   categorize_query (nlp_with [] []) Other = (''unknown'', []) \<and>
   fst (categorize_query (nlp_with [] []) Other) \<in> set category_names"
  using categorize_query_closed_and_total [of "nlp_with [] []" Other]
  by (simp add: chain_body_def category_names_def)

section \<open>An empty keyword list asks the user to say more\<close>

lemma where_query_words: "split_ws (strip_punct (lower where_query)) = [[1075, 1076, 1077] \<comment> \<open>gde\<close>]"
  by code_simp

lemma where_query_lower: "lower where_query = where_query"
  by code_simp

lemma where_query_captures:
  "List.map_filter (\<lambda>pattern. search_capture pattern where_query) teacher_patterns = []"
  by code_simp

lemma where_query_navigation: "step_navigation where_query [] = Some (''navigation'', [])"
  by code_simp

lemma where_query_keywords:
  assumes "normalize_word p [1075, 1076, 1077] \<comment> \<open>gde\<close> \<in> set stop_words"
  shows "query_keywords p where_query = []"
  using assms
  by (simp add: query_keywords_def extract_keywords_def where_query_words where_query_captures)

lemma where_query_chain:
  assumes "normalize_word p [1075, 1076, 1077] \<comment> \<open>gde\<close> \<in> set stop_words"
  shows "categorize_chain p where_query = (''navigation'', [])"
  by (simp add: categorize_chain_def chain_steps_def where_query_lower
      where_query_keywords [OF assms] where_query_navigation step_roster_def)

text \<open>
  Claim C9. For every text that does not start with a slash, if \<^verbatim>\<open>categorize_query\<close>
  returns an empty list, then \<^verbatim>\<open>process_query\<close> returns the fixed clarification prompt,
  whatever the category is and whatever the formatters would answer. In particular the
  query \<^verbatim>\<open>gde?\<close> ("where?"), whose only word is a stop word once normalized, is
  classified as navigation with no keywords and gets the prompt.
\<close>

theorem empty_keywords_give_clarification:
  "(\<not> starts_with [47] text \<and> snd (categorize_query p (Text text)) = [] \<longrightarrow>
      process_query p f (Text text) = Some clarification_prompt) \<and>
   (normalize_word p [1075, 1076, 1077] \<comment> \<open>gde\<close> \<in> set stop_words \<longrightarrow>
      categorize_query p (Text where_query) = (''navigation'', []) \<and>
      process_query p f (Text where_query) = Some clarification_prompt)"
proof -
  have a: "process_query p f (Text text) = Some clarification_prompt"
    if "\<not> starts_with [47] text" "snd (categorize_query p (Text text)) = []"
    using that by (cases "categorize_query p (Text text)") (simp add: process_query_def)
  have s: "\<not> starts_with [47] where_query" by code_simp
  have b: "categorize_query p (Text where_query) = (''navigation'', [])"
    if "normalize_word p [1075, 1076, 1077] \<comment> \<open>gde\<close> \<in> set stop_words"
    using where_query_chain [OF that] by (simp add: categorize_query_def chain_body_def)
  have c: "process_query p f (Text where_query) = Some clarification_prompt"
    if "normalize_word p [1075, 1076, 1077] \<comment> \<open>gde\<close> \<in> set stop_words"
    using b [OF that] s by (simp add: process_query_def)
  show ?thesis using a b c by blast
qed

theorem empty_keywords_give_clarification_witness:
  "\<not> starts_with [47] where_query \<and>
   snd (categorize_query (nlp_with [] []) (Text where_query)) = [] \<and>
   normalize_word (nlp_with [] []) [1075, 1076, 1077] \<comment> \<open>gde\<close> \<in> set stop_words \<and>
   categorize_query (nlp_with [] []) (Text where_query) = (''navigation'', []) \<and>
   process_query (nlp_with [] []) (fixed_formatters [1086, 1090, 1074, 1077, 1090] \<comment> \<open>otvet\<close>) (Text where_query) =
     Some clarification_prompt"
proof -
  have h1: "\<not> starts_with [47] where_query" by code_simp
  have h2: "normalize_word (nlp_with [] []) [1075, 1076, 1077] \<comment> \<open>gde\<close> \<in> set stop_words" by code_simp
  show ?thesis
    using empty_keywords_give_clarification
            [of where_query "nlp_with [] []" "fixed_formatters [1086, 1090, 1074, 1077, 1090] \<comment> \<open>otvet\<close>"] h1 h2
    by simp
qed

section \<open>The roster match comes before the navigation phrasing\<close>

lemma find_append_first:
  "find P (xs @ ys) = (case find P xs of Some x \<Rightarrow> Some x | None \<Rightarrow> find P ys)"
  by (induction xs) simp_all

lemma roster_match_find:
  "roster_match idx ws =
     (case find (\<lambda>w. roster_entry idx w \<noteq> None) ws of
        None \<Rightarrow> None
      | Some w \<Rightarrow> map_option snd (roster_entry idx w))"
  by (induction ws) (auto split: option.splits)

lemma roster_entry_hit:
  "(s, n) \<in> set idx \<Longrightarrow> contains s (lower w) \<Longrightarrow> roster_entry idx w \<noteq> None"
  by (auto simp: roster_entry_def find_None_iff)

lemma categorize_chain_roster:
  assumes "roster_match (teacher_surnames p) (query_keywords p (lower text)) = Some n"
  shows "categorize_chain p text = (''teacher'', [n])"
  using assms by (simp add: categorize_chain_def chain_steps_def Let_def step_roster_def)

text \<open>
  Claim C2. For every text whose lower-cased form holds a locative marker and that has a
  normalized token in which some surname of the index occurs, \<^verbatim>\<open>categorize_query\<close>
  returns the category teacher with one entity: the full name that the index gives, for
  the first token in which a surname occurs, by its first entry in insertion order whose
  surname occurs in that token. The result is never a navigation result.
\<close>

theorem roster_match_dominates_navigation:
  assumes "locative_marker (lower text)"
    and "w \<in> set (extract_keywords p (lower text))"
    and "(s, n) \<in> set (teacher_surnames p)"
    and "contains s (lower w)"
  shows "\<exists>w' e. find (\<lambda>w. roster_entry (teacher_surnames p) w \<noteq> None)
                      (extract_keywords p (lower text)) = Some w' \<and>
                roster_entry (teacher_surnames p) w' = Some e \<and>
                categorize_query p (Text text) = (''teacher'', [snd e]) \<and>
                fst (categorize_query p (Text text)) \<noteq> ''navigation''"
proof -
  let ?idx = "teacher_surnames p"
  let ?P = "\<lambda>w. roster_entry ?idx w \<noteq> None"
  have "?P w" using roster_entry_hit [OF assms(3,4)] .
  with assms(2) obtain w' where w': "find ?P (extract_keywords p (lower text)) = Some w'"
    by (cases "find ?P (extract_keywords p (lower text))") (auto simp: find_None_iff)
  then have "?P w'" by (auto simp: find_Some_iff)
  then obtain e where e: "roster_entry ?idx w' = Some e" by auto
  have "find ?P (query_keywords p (lower text)) = Some w'"
    using w' by (simp add: query_keywords_def find_append_first)
  then have "roster_match ?idx (query_keywords p (lower text)) = Some (snd e)"
    using e by (simp add: roster_match_find)
  then have c: "categorize_query p (Text text) = (''teacher'', [snd e])"
    using categorize_chain_roster by (simp add: categorize_query_def chain_body_def)
  then have "fst (categorize_query p (Text text)) \<noteq> ''navigation''" by simp
  with w' e c show ?thesis by blast
qed

theorem roster_match_dominates_navigation_witness:
  "locative_marker (lower library_surname_query) \<and>
   [1080, 1074, 1072, 1085, 1086, 1074] \<comment> \<open>ivanov\<close> \<in> set (extract_keywords ivanov_nlp (lower library_surname_query)) \<and>
   ([1080, 1074, 1072, 1085, 1086, 1074] \<comment> \<open>ivanov\<close>, [1048, 1074, 1072, 1085, 1086, 1074, 32, 1048, 1074, 1072, 1085, 32, 1048, 1074, 1072, 1085, 1086, 1074, 1080, 1095] \<comment> \<open>Ivanov Ivan Ivanovich\<close>) \<in> set (teacher_surnames ivanov_nlp) \<and>
   contains [1080, 1074, 1072, 1085, 1086, 1074] \<comment> \<open>ivanov\<close> (lower [1080, 1074, 1072, 1085, 1086, 1074] \<comment> \<open>ivanov\<close>) \<and>
   categorize_query ivanov_nlp (Text library_surname_query) =
     (''teacher'', [[1048, 1074, 1072, 1085, 1086, 1074, 32, 1048, 1074, 1072, 1085, 32, 1048, 1074, 1072, 1085, 1086, 1074, 1080, 1095] \<comment> \<open>Ivanov Ivan Ivanovich\<close>])"
proof -
  have h1: "locative_marker (lower library_surname_query)" by code_simp
  have h2: "[1080, 1074, 1072, 1085, 1086, 1074] \<comment> \<open>ivanov\<close> \<in> set (extract_keywords ivanov_nlp (lower library_surname_query))"
    by code_simp
  have h3: "([1080, 1074, 1072, 1085, 1086, 1074] \<comment> \<open>ivanov\<close>, [1048, 1074, 1072, 1085, 1086, 1074, 32, 1048, 1074, 1072, 1085, 32, 1048, 1074, 1072, 1085, 1086, 1074, 1080, 1095] \<comment> \<open>Ivanov Ivan Ivanovich\<close>) \<in> set (teacher_surnames ivanov_nlp)"
    by code_simp
  have h4: "contains [1080, 1074, 1072, 1085, 1086, 1074] \<comment> \<open>ivanov\<close> (lower [1080, 1074, 1072, 1085, 1086, 1074] \<comment> \<open>ivanov\<close>)" by code_simp
  have f: "find (\<lambda>w. roster_entry (teacher_surnames ivanov_nlp) w \<noteq> None)
             (extract_keywords ivanov_nlp (lower library_surname_query)) = Some [1080, 1074, 1072, 1085, 1086, 1074] \<comment> \<open>ivanov\<close>"
    by code_simp
  have r: "roster_entry (teacher_surnames ivanov_nlp) [1080, 1074, 1072, 1085, 1086, 1074] \<comment> \<open>ivanov\<close> =
             Some ([1080, 1074, 1072, 1085, 1086, 1074] \<comment> \<open>ivanov\<close>, [1048, 1074, 1072, 1085, 1086, 1074, 32, 1048, 1074, 1072, 1085, 32, 1048, 1074, 1072, 1085, 1086, 1074, 1080, 1095] \<comment> \<open>Ivanov Ivan Ivanovich\<close>)"
    by code_simp
  show ?thesis
    using roster_match_dominates_navigation [OF h1 h2 h3 h4] h1 h2 h3 h4 f r by simp
qed

section \<open>The teaching context is checked at the discipline step\<close>

lemma lower_cp_idem: "lower_cp (lower_cp c) = lower_cp c"
  by (simp add: lower_cp_def)

lemma lower_idem: "lower (lower s) = lower s"
  by (simp add: lower_def lower_cp_idem)

lemma first_some_drop:
  "list_all (\<lambda>r. r = None) (take k rs) \<Longrightarrow> first_some rs = first_some (drop k rs)"
proof (induction rs arbitrary: k)
  case Nil
  show ?case by simp
next
  case (Cons r rs)
  show ?case
  proof (cases k)
    case 0
    then show ?thesis by simp
  next
    case (Suc j)
    with Cons.prems have "r = None" "list_all (\<lambda>r. r = None) (take j rs)" by simp_all
    with Cons.IH [of j] Suc show ?thesis by simp
  qed
qed

lemma chain_steps_drop4:
  "drop 4 (chain_steps p text) =
     [step_discipline p (lower text),
      step_phrases (lower text) (query_keywords p (lower text)),
      step_exact (query_keywords p (lower text)),
      step_fuzzy (query_keywords p (lower text))]"
  by (simp add: chain_steps_def Let_def)

lemma categorize_chain_discipline:
  assumes "reaches 4 p text" and "step_discipline p (lower text) = Some r"
  shows "categorize_chain p text = r"
  using first_some_drop [OF assms(1) [unfolded reaches_def]] assms(2)
  by (simp add: categorize_chain_def chain_steps_drop4)

lemma context_hit_find:
  "context_hit ds ws =
     (case find (\<lambda>w. find (\<lambda>d. contains d w) ds \<noteq> None) ws of
        None \<Rightarrow> None
      | Some w \<Rightarrow> find (\<lambda>d. contains d w) ds)"
  by (induction ws) (auto split: option.splits)

lemma empty_no_discipline_keyword: "[] \<notin> set discipline_keywords"
  by code_simp

lemma capitalize_not_empty: "d \<noteq> [] \<Longrightarrow> capitalize d \<noteq> []"
  by (cases d) simp_all

text \<open>
  Claim C1, as the program has it. The check of the teaching context is the first thing
  \<^verbatim>\<open>find_discipline_in_text\<close> does, and \<^verbatim>\<open>categorize_query\<close> calls that function as its
  fifth conditional, after the roster match, the navigation phrasing, the teacher mention
  and the capitalized surname. For every query whose lower-cased text holds a teaching
  marker and that has a normalized token in which a discipline keyword occurs, if none of
  those four conditionals returns, then the result is the category discipline with one
  entity: the capitalized keyword, namely the first keyword, in the iteration order of
  the set, that occurs in the first token in which any keyword occurs.
\<close>

theorem teaching_context_at_discipline_step:
  assumes "wf_nlp p"
    and "teaching_marker (lower text)"
    and "d \<in> set discipline_keywords"
    and "w \<in> set (extract_keywords p (lower text))"
    and "contains d w"
    and "reaches 4 p text"
  shows "\<exists>w' d'. find (\<lambda>w. find (\<lambda>d. contains d w) (discipline_order p) \<noteq> None)
                       (extract_keywords p (lower text)) = Some w' \<and>
                 find (\<lambda>d. contains d w') (discipline_order p) = Some d' \<and>
                 categorize_query p (Text text) = (''discipline'', [capitalize d'])"
proof -
  let ?ds = "discipline_order p"
  let ?ws = "extract_keywords p (lower text)"
  let ?P = "\<lambda>w. find (\<lambda>d. contains d w) ?ds \<noteq> None"
  have "d \<in> set ?ds" using assms(1,3) by (simp add: wf_nlp_def)
  with assms(5) have "?P w" by (auto simp: find_None_iff)
  with assms(4) obtain w' where w': "find ?P ?ws = Some w'"
    by (cases "find ?P ?ws") (auto simp: find_None_iff)
  then have "?P w'" by (auto simp: find_Some_iff)
  then obtain d' where d': "find (\<lambda>d. contains d w') ?ds = Some d'" by auto
  then have "d' \<in> set ?ds" by (auto simp: find_Some_iff)
  then have "d' \<noteq> []" using assms(1) empty_no_discipline_keyword by (auto simp: wf_nlp_def)
  then have ne: "capitalize d' \<noteq> []" by (rule capitalize_not_empty)
  have "context_hit ?ds ?ws = Some d'"
    using w' d' by (simp add: context_hit_find)
  then have "teaching_context p (lower text) = Some d'"
    using assms(2) by (simp add: teaching_context_def teaching_marker_def lower_idem)
  then have "find_discipline_in_text p (lower text) = Some (capitalize d')"
    by (simp add: find_discipline_in_text_def)
  then have "step_discipline p (lower text) = Some (''discipline'', [capitalize d'])"
    using ne by (simp add: step_discipline_def)
  then have "categorize_query p (Text text) = (''discipline'', [capitalize d'])"
    using categorize_chain_discipline [OF assms(6)]
    by (simp add: categorize_query_def chain_body_def)
  with w' d' show ?thesis by blast
qed

theorem teaching_context_at_discipline_step_witness:
  "wf_nlp (teaches_nlp []) \<and>
   teaching_marker (lower who_teaches_query) \<and>
   [1084, 1072, 1090, 1077, 1084, 1072, 1090, 1080, 1082, 1072] \<comment> \<open>matematika\<close> \<in> set discipline_keywords \<and>
   [1084, 1072, 1090, 1077, 1084, 1072, 1090, 1080, 1082, 1072] \<comment> \<open>matematika\<close> \<in> set (extract_keywords (teaches_nlp []) (lower who_teaches_query)) \<and>
   contains [1084, 1072, 1090, 1077, 1084, 1072, 1090, 1080, 1082, 1072] \<comment> \<open>matematika\<close> [1084, 1072, 1090, 1077, 1084, 1072, 1090, 1080, 1082, 1072] \<comment> \<open>matematika\<close> \<and>
   reaches 4 (teaches_nlp []) who_teaches_query \<and>
   categorize_query (teaches_nlp []) (Text who_teaches_query) =
     (''discipline'', [[1052, 1072, 1090, 1077, 1084, 1072, 1090, 1080, 1082, 1072] \<comment> \<open>Matematika\<close>])"
proof -
  have h1: "wf_nlp (teaches_nlp [])" by (simp add: wf_nlp_def teaches_nlp_def nlp_with_def)
  have h2: "teaching_marker (lower who_teaches_query)" by code_simp
  have h3: "[1084, 1072, 1090, 1077, 1084, 1072, 1090, 1080, 1082, 1072] \<comment> \<open>matematika\<close> \<in> set discipline_keywords" by code_simp
  have h4: "[1084, 1072, 1090, 1077, 1084, 1072, 1090, 1080, 1082, 1072] \<comment> \<open>matematika\<close> \<in> set (extract_keywords (teaches_nlp []) (lower who_teaches_query))"
    by code_simp
  have h5: "contains [1084, 1072, 1090, 1077, 1084, 1072, 1090, 1080, 1082, 1072] \<comment> \<open>matematika\<close> [1084, 1072, 1090, 1077, 1084, 1072, 1090, 1080, 1082, 1072] \<comment> \<open>matematika\<close>" by code_simp
  have h6: "reaches 4 (teaches_nlp []) who_teaches_query" by code_simp
  have f: "find (\<lambda>w. find (\<lambda>d. contains d w) (discipline_order (teaches_nlp [])) \<noteq> None)
             (extract_keywords (teaches_nlp []) (lower who_teaches_query)) = Some [1084, 1072, 1090, 1077, 1084, 1072, 1090, 1080, 1082, 1072] \<comment> \<open>matematika\<close>"
    by code_simp
  have g: "find (\<lambda>d. contains d [1084, 1072, 1090, 1077, 1084, 1072, 1090, 1080, 1082, 1072] \<comment> \<open>matematika\<close>) (discipline_order (teaches_nlp [])) =
             Some [1084, 1072, 1090, 1077, 1084, 1072, 1090, 1080, 1082, 1072] \<comment> \<open>matematika\<close>"
    by code_simp
  have c: "capitalize [1084, 1072, 1090, 1077, 1084, 1072, 1090, 1080, 1082, 1072] \<comment> \<open>matematika\<close> = [1052, 1072, 1090, 1077, 1084, 1072, 1090, 1080, 1082, 1072] \<comment> \<open>Matematika\<close>" by code_simp
  show ?thesis
    using teaching_context_at_discipline_step [OF h1 h2 h3 h4 h5 h6] h1 h2 h3 h4 h5 h6 f g c
    by simp
qed

text \<open>
  The claim as written puts the check before the roster match. A query with a teaching
  marker, a course name and a surname of the roster is classified as teacher.
\<close>

theorem teaching_context_first_counterexample:
  "teaching_marker (lower surname_teaches_query) \<and>
   [1084, 1072, 1090, 1077, 1084, 1072, 1090, 1080, 1082, 1072] \<comment> \<open>matematika\<close> \<in> set discipline_keywords \<and>
   [1084, 1072, 1090, 1077, 1084, 1072, 1090, 1080, 1082, 1072] \<comment> \<open>matematika\<close> \<in> set (extract_keywords
        (teaches_nlp [([1080, 1074, 1072, 1085, 1086, 1074] \<comment> \<open>ivanov\<close>, [1048, 1074, 1072, 1085, 1086, 1074, 32, 1048, 1074, 1072, 1085, 32, 1048, 1074, 1072, 1085, 1086, 1074, 1080, 1095] \<comment> \<open>Ivanov Ivan Ivanovich\<close>)])
        (lower surname_teaches_query)) \<and>
   contains [1084, 1072, 1090, 1077, 1084, 1072, 1090, 1080, 1082, 1072] \<comment> \<open>matematika\<close> [1084, 1072, 1090, 1077, 1084, 1072, 1090, 1080, 1082, 1072] \<comment> \<open>matematika\<close> \<and>
   categorize_query (teaches_nlp [([1080, 1074, 1072, 1085, 1086, 1074] \<comment> \<open>ivanov\<close>, [1048, 1074, 1072, 1085, 1086, 1074, 32, 1048, 1074, 1072, 1085, 32, 1048, 1074, 1072, 1085, 1086, 1074, 1080, 1095] \<comment> \<open>Ivanov Ivan Ivanovich\<close>)])
       (Text surname_teaches_query) = (''teacher'', [[1048, 1074, 1072, 1085, 1086, 1074, 32, 1048, 1074, 1072, 1085, 32, 1048, 1074, 1072, 1085, 1086, 1074, 1080, 1095] \<comment> \<open>Ivanov Ivan Ivanovich\<close>])"
  by code_simp

section \<open>The discipline code\<close>
















section \<open>The discipline code through the classifier\<close>

lemma lower_append: "lower (xs @ ys) = lower xs @ lower ys"
  by (simp add: lower_def)







section \<open>The fuzzy keyword step\<close>

lemma starts_with_refl: "starts_with s s"
  by (induction s) simp_all

lemma contains_refl: "contains s s"
  by (cases s) (simp_all add: starts_with_refl)

lemma chain_steps_drop7:
  "drop 7 (chain_steps p text) = [step_fuzzy (query_keywords p (lower text))]"
  by (simp add: chain_steps_def Let_def)

lemma categorize_chain_fuzzy:
  assumes "reaches 7 p text" and "step_fuzzy (query_keywords p (lower text)) = Some r"
  shows "categorize_chain p text = r"
  using first_some_drop [OF assms(1) [unfolded reaches_def]] assms(2)
  by (simp add: categorize_chain_def chain_steps_drop7)

lemma fuzzy_hit_overlap:
  assumes "fuzzy_hit k cw"
  shows "\<exists>s. 3 < length s \<and> contains s k \<and> contains s cw"
proof -
  from assms consider "3 < length k" "contains k cw" | "3 < length cw" "contains cw k"
    by (auto simp: fuzzy_hit_def)
  then show ?thesis
  proof cases
    case 1
    then show ?thesis using contains_refl [of k] by blast
  next
    case 2
    then show ?thesis using contains_refl [of cw] by blast
  qed
qed

text \<open>
  Claim C8, as the program has it. The fuzzy step compares by containment: a token and a
  category keyword hit when one of them is longer than three characters and occurs in
  the other as a whole. For every query that reaches the step with a token that hits
  some keyword of some category, the result is the first category, in the order of the
  table, that has a hit with a token, together with all the tokens. And a hit implies
  that the token and the keyword share a substring of more than three characters, so a
  pair that shares two characters only is no hit.
\<close>

theorem fuzzy_keyword_match:
  "(reaches 7 p text \<and> k \<in> set (query_keywords p (lower text)) \<and>
    (c, ws) \<in> set categories \<and> cw \<in> set ws \<and> fuzzy_hit k cw \<longrightarrow>
      (\<exists>c' ws'. find (fuzzy_category (query_keywords p (lower text))) categories = Some (c', ws') \<and>
                 categorize_query p (Text text) = (c', query_keywords p (lower text)))) \<and>
   (fuzzy_hit k cw \<longrightarrow> (\<exists>s. 3 < length s \<and> contains s k \<and> contains s cw))"
proof (intro conjI impI)
  let ?ks = "query_keywords p (lower text)"
  assume a: "reaches 7 p text \<and> k \<in> set ?ks \<and> (c, ws) \<in> set categories \<and> cw \<in> set ws \<and>
             fuzzy_hit k cw"
  then have "fuzzy_category ?ks (c, ws)"
    by (auto simp: fuzzy_category_def list_ex_iff)
  with a obtain e where e: "find (fuzzy_category ?ks) categories = Some e"
    by (cases "find (fuzzy_category ?ks) categories") (auto simp: find_None_iff)
  obtain c' ws' where cw: "e = (c', ws')" by (cases e)
  have "step_fuzzy ?ks = Some (c', ?ks)" using e cw by (simp add: step_fuzzy_def)
  then have "categorize_query p (Text text) = (c', ?ks)"
    using categorize_chain_fuzzy a by (simp add: categorize_query_def chain_body_def)
  with e cw show "\<exists>c' ws'. find (fuzzy_category ?ks) categories = Some (c', ws') \<and>
                 categorize_query p (Text text) = (c', ?ks)" by blast
next
  assume "fuzzy_hit k cw"
  then show "\<exists>s. 3 < length s \<and> contains s k \<and> contains s cw" by (rule fuzzy_hit_overlap)
qed

theorem fuzzy_keyword_match_witness:
  "reaches 7 (nlp_with [] []) documentation_query \<and>
   [1076, 1086, 1082, 1091, 1084, 1077, 1085, 1090, 1072, 1094, 1080, 1103] \<comment> \<open>dokumentaciya\<close> \<in> set (query_keywords (nlp_with [] []) (lower documentation_query)) \<and>
   (''document'', document_keywords) \<in> set categories \<and>
   [1076, 1086, 1082, 1091, 1084, 1077, 1085, 1090] \<comment> \<open>dokument\<close> \<in> set document_keywords \<and>
   fuzzy_hit [1076, 1086, 1082, 1091, 1084, 1077, 1085, 1090, 1072, 1094, 1080, 1103] \<comment> \<open>dokumentaciya\<close> [1076, 1086, 1082, 1091, 1084, 1077, 1085, 1090] \<comment> \<open>dokument\<close> \<and>
   categorize_query (nlp_with [] []) (Text documentation_query) =
     (''document'', [[1076, 1086, 1082, 1091, 1084, 1077, 1085, 1090, 1072, 1094, 1080, 1103] \<comment> \<open>dokumentaciya\<close>])"
proof -
  have h1: "reaches 7 (nlp_with [] []) documentation_query" by code_simp
  have h2: "[1076, 1086, 1082, 1091, 1084, 1077, 1085, 1090, 1072, 1094, 1080, 1103] \<comment> \<open>dokumentaciya\<close> \<in> set (query_keywords (nlp_with [] []) (lower documentation_query))"
    by code_simp
  have h3: "(''document'', document_keywords) \<in> set categories" by (simp add: categories_def)
  have h4: "[1076, 1086, 1082, 1091, 1084, 1077, 1085, 1090] \<comment> \<open>dokument\<close> \<in> set document_keywords" by code_simp
  have h5: "fuzzy_hit [1076, 1086, 1082, 1091, 1084, 1077, 1085, 1090, 1072, 1094, 1080, 1103] \<comment> \<open>dokumentaciya\<close> [1076, 1086, 1082, 1091, 1084, 1077, 1085, 1090] \<comment> \<open>dokument\<close>" by code_simp
  have f: "find (fuzzy_category (query_keywords (nlp_with [] []) (lower documentation_query)))
             categories = Some (''document'', document_keywords)" by code_simp
  have q: "query_keywords (nlp_with [] []) (lower documentation_query) = [[1076, 1086, 1082, 1091, 1084, 1077, 1085, 1090, 1072, 1094, 1080, 1103] \<comment> \<open>dokumentaciya\<close>]"
    by code_simp
  show ?thesis
    using fuzzy_keyword_match [of "nlp_with [] []" documentation_query "[1076, 1086, 1082, 1091, 1084, 1077, 1085, 1090, 1072, 1094, 1080, 1103] \<comment> \<open>dokumentaciya\<close>"
        "''document''" document_keywords "[1076, 1086, 1082, 1091, 1084, 1077, 1085, 1090] \<comment> \<open>dokument\<close>"] h1 h2 h3 h4 h5 f q
    by simp
qed

text \<open>
  The claim as written asks for four shared characters only. The adjective for "room"
  shares six characters with the dormitory keyword for "room", neither occurs in the
  other, and the query is classified as unknown.
\<close>

theorem fuzzy_shared_characters_counterexample:
  "reaches 7 (nlp_with [] []) room_adjective_query \<and>
   [1082, 1086, 1084, 1085, 1072, 1090, 1085, 1099, 1081] \<comment> \<open>komnatnyj\<close> \<in> set (query_keywords (nlp_with [] []) (lower room_adjective_query)) \<and>
   [1082, 1086, 1084, 1085, 1072, 1090, 1072] \<comment> \<open>komnata\<close> \<in> set dormitory_keywords \<and>
   contains [1082, 1086, 1084, 1085, 1072, 1090] \<comment> \<open>komnat\<close> [1082, 1086, 1084, 1085, 1072, 1090, 1085, 1099, 1081] \<comment> \<open>komnatnyj\<close> \<and>
   contains [1082, 1086, 1084, 1085, 1072, 1090] \<comment> \<open>komnat\<close> [1082, 1086, 1084, 1085, 1072, 1090, 1072] \<comment> \<open>komnata\<close> \<and>
   categorize_query (nlp_with [] []) (Text room_adjective_query) =
     (''unknown'', [[1082, 1086, 1084, 1085, 1072, 1090, 1085, 1099, 1081] \<comment> \<open>komnatnyj\<close>])"
  by code_simp

section \<open>Normalizing the output of the normalizer\<close>

lemma word_not_space: "is_word c \<Longrightarrow> \<not> is_space c"
  by (auto simp: is_word_def is_alpha_def is_upper_def is_lower_def is_digit_def is_space_def)

lemma clean_word_lower: "clean_word w \<Longrightarrow> lower w = w"
  by (simp add: clean_word_def lower_def list_all_iff map_idI)

lemma clean_word_strip: "clean_word w \<Longrightarrow> strip_punct w = w"
  by (simp add: clean_word_def strip_punct_def list_all_iff map_idI)

lemma clean_word_no_space: "clean_word w \<Longrightarrow> c \<in> set w \<Longrightarrow> \<not> is_space c"
  by (auto simp: clean_word_def list_all_iff word_not_space)

lemma strip_punct_append: "strip_punct (xs @ ys) = strip_punct xs @ strip_punct ys"
  by (simp add: strip_punct_def)

lemma lower_space: "lower [] = []" "lower (32 # s) = 32 # lower s"
  by (simp_all add: lower_def lower_cp_def)

lemma strip_punct_space: "strip_punct [] = []" "strip_punct (32 # s) = 32 # strip_punct s"
  by (simp_all add: strip_punct_def)

lemma join_sp_lower: "list_all clean_word ts \<Longrightarrow> lower (join_sp ts) = join_sp ts"
  by (induction ts rule: join_sp.induct)
     (simp_all add: lower_append lower_space clean_word_lower)

lemma join_sp_strip: "list_all clean_word ts \<Longrightarrow> strip_punct (join_sp ts) = join_sp ts"
  by (induction ts rule: join_sp.induct)
     (simp_all add: strip_punct_append strip_punct_space clean_word_strip)

lemma split_from_word:
  "\<forall>c\<in>set t. \<not> is_space c \<Longrightarrow> split_from w (t @ s) = split_from (rev t @ w) s"
  by (induction t arbitrary: w) simp_all

lemma join_sp_split: "list_all clean_word ts \<Longrightarrow> split_ws (join_sp ts) = ts"
proof (induction ts rule: join_sp.induct)
  case 1
  show ?case by (simp add: split_ws_def)
next
  case (2 w)
  then have "\<forall>c\<in>set w. \<not> is_space c" "w \<noteq> []"
    by (auto simp: clean_word_no_space clean_word_def)
  then show ?case
    using split_from_word [of w "[]" "[]"] by (simp add: split_ws_def)
next
  case (3 w v ws)
  then have w: "\<forall>c\<in>set w. \<not> is_space c" "w \<noteq> []"
    by (auto simp: clean_word_no_space clean_word_def)
  have "split_from [] (w @ 32 # join_sp (v # ws)) = split_from (rev w) (32 # join_sp (v # ws))"
    using split_from_word [OF w(1), of "[]"] by simp
  also have "\<dots> = w # split_from [] (join_sp (v # ws))"
    using w(2) by (simp add: is_space_def)
  finally show ?case using 3 by (simp add: split_ws_def)
qed

lemma extract_keywords_filtered: "t \<in> set (extract_keywords p text) \<Longrightarrow> t \<notin> set stop_words"
  by (simp add: extract_keywords_def Let_def)

text \<open>
  Claim C7, as the program has it. \<^verbatim>\<open>extract_keywords\<close> has one way through the text:
  it hands every word to the analyser, also when the words are normal forms already. For
  every text whose tokens are words in lower case that the analyser returns unchanged,
  feeding the tokens, joined by spaces, through \<^verbatim>\<open>extract_keywords\<close> again gives the same
  sequence of tokens.
\<close>

theorem normalization_stable_on_fixed_points:
  assumes "list_all (stable_token p) (extract_keywords p text)"
  shows "extract_keywords p (join_sp (extract_keywords p text)) = extract_keywords p text"
proof -
  let ?ts = "extract_keywords p text"
  have c: "list_all clean_word ?ts" using assms by (simp add: list_all_iff stable_token_def)
  have "split_ws (strip_punct (lower (join_sp ?ts))) = ?ts"
    by (simp add: join_sp_lower [OF c] join_sp_strip [OF c] join_sp_split [OF c])
  then have "extract_keywords p (join_sp ?ts) =
             filter (\<lambda>word. word \<notin> set stop_words) (map (normalize_word p) ?ts)"
    by (simp add: extract_keywords_def [of p "join_sp ?ts"] Let_def)
  also have "map (normalize_word p) ?ts = ?ts"
    using assms by (intro map_idI) (simp add: list_all_iff stable_token_def)
  also have "filter (\<lambda>word. word \<notin> set stop_words) ?ts = ?ts"
    by (rule filter_True) (simp add: extract_keywords_filtered)
  finally show ?thesis .
qed

theorem normalization_stable_on_fixed_points_witness:
  "list_all (stable_token located_nlp) (extract_keywords located_nlp library_query) \<and>
   extract_keywords located_nlp library_query =
     [[1085, 1072, 1093, 1086, 1076, 1080, 1090, 1100, 1089, 1103] \<comment> \<open>nahodit'sya\<close>, [1073, 1080, 1073, 1083, 1080, 1086, 1090, 1077, 1082, 1072] \<comment> \<open>biblioteka\<close>] \<and>
   extract_keywords located_nlp (join_sp (extract_keywords located_nlp library_query)) =
     [[1085, 1072, 1093, 1086, 1076, 1080, 1090, 1100, 1089, 1103] \<comment> \<open>nahodit'sya\<close>, [1073, 1080, 1073, 1083, 1080, 1086, 1090, 1077, 1082, 1072] \<comment> \<open>biblioteka\<close>]"
proof -
  have h: "list_all (stable_token located_nlp) (extract_keywords located_nlp library_query)"
    by code_simp
  have e: "extract_keywords located_nlp library_query =
     [[1085, 1072, 1093, 1086, 1076, 1080, 1090, 1100, 1089, 1103] \<comment> \<open>nahodit'sya\<close>, [1073, 1080, 1073, 1083, 1080, 1086, 1090, 1077, 1082, 1072] \<comment> \<open>biblioteka\<close>]" by code_simp
  show ?thesis
    using normalization_stable_on_fixed_points [OF h] h e by simp
qed

text \<open>
  The claim as written holds for every text because normal forms would not be analysed
  again. They are: with an analyser that gives a normal form another normal form, the
  second pass changes the token.
\<close>

theorem normalization_idempotent_counterexample:
  "extract_keywords squirrels_nlp [1041, 1077, 1083, 1082, 1080] \<comment> \<open>Belki\<close> = [[1073, 1077, 1083, 1086, 1082] \<comment> \<open>belok\<close>] \<and>
   join_sp [[1073, 1077, 1083, 1086, 1082] \<comment> \<open>belok\<close>] = [1073, 1077, 1083, 1086, 1082] \<comment> \<open>belok\<close> \<and>
   extract_keywords squirrels_nlp [1073, 1077, 1083, 1086, 1082] \<comment> \<open>belok\<close> = [[1073, 1077, 1083, 1082, 1072] \<comment> \<open>belka\<close>]"
  by code_simp


end
